theory Spec2Isabelle
  imports Main "HOL-Library.Sublist"
begin

section \<open>Python values and string primitives used by quack.py\<close>

text \<open>
  The script is read as Python 3 text. A \<open>str\<close> is a \<open>string\<close>; the captured output of
  a child process is a \<open>bytes\<close> object. Every uncaught exception ends the process, so an
  exception is a value of \<open>error\<close> and \<open>SystemExit n\<close> is \<open>sys.exit(n)\<close>.
\<close>

datatype error =
    SystemExit int
  | NameError
  | TypeError
  | IndexError
  | AttributeError
  | FileNotFoundError
  | NotADirectoryError
  | IsADirectoryError
  | FileExistsError
  | SameFileError
  | OSError
  | ShutilError
  | ExternalError string

datatype pyval = PStr string | PBytes string | PInt int

text \<open>\<open>s.find(sub)\<close>: the lowest index where \<open>sub\<close> starts, or \<open>-1\<close>.\<close>

fun py_find_from :: "string \<Rightarrow> string \<Rightarrow> int \<Rightarrow> int" where
  "py_find_from [] sub i = (if sub = [] then i else -1)"
| "py_find_from (c # cs) sub i =
     (if prefix sub (c # cs) then i else py_find_from cs sub (i + 1))"

definition py_find :: "string \<Rightarrow> string \<Rightarrow> int" where
  "py_find s sub = py_find_from s sub 0"

text \<open>\<open>s.rfind(c)\<close> for a one-character \<open>c\<close>: the highest index of \<open>c\<close>, or \<open>-1\<close>.\<close>

fun py_rfind_from :: "string \<Rightarrow> char \<Rightarrow> int \<Rightarrow> int \<Rightarrow> int" where
  "py_rfind_from [] c i best = best"
| "py_rfind_from (x # xs) c i best =
     py_rfind_from xs c (i + 1) (if x = c then i else best)"

definition py_rfind :: "string \<Rightarrow> char \<Rightarrow> int" where
  "py_rfind s c = py_rfind_from s c 0 (-1)"

text \<open>
  \<open>s.replace(old, '')\<close> for a non-empty \<open>old\<close>: every non-overlapping occurrence, found
  from the left, is deleted.
\<close>

fun py_remove_all :: "string \<Rightarrow> string \<Rightarrow> string" where
  "py_remove_all old [] = []"
| "py_remove_all old (c # cs) =
     (if old \<noteq> [] \<and> prefix old (c # cs)
      then py_remove_all old (drop (length old) (c # cs))
      else c # py_remove_all old cs)"

text \<open>\<open>s[i:j]\<close> with Python's treatment of negative and out-of-range bounds.\<close>

definition py_clip :: "nat \<Rightarrow> int \<Rightarrow> nat" where
  "py_clip n i = (if i < 0 then nat (max 0 (int n + i)) else min n (nat i))"

definition py_slice :: "string \<Rightarrow> int \<Rightarrow> int \<Rightarrow> string" where
  "py_slice s i j =
     (let a = py_clip (length s) i; b = py_clip (length s) j in take (b - a) (drop a s))"

text \<open>\<open>s.split(c)\<close> for a one-character separator.\<close>

fun py_split :: "char \<Rightarrow> string \<Rightarrow> string list" where
  "py_split c [] = [[]]"
| "py_split c (x # xs) =
     (if x = c then [] # py_split c xs
      else (case py_split c xs of [] \<Rightarrow> [[x]] | w # ws \<Rightarrow> (x # w) # ws))"

text \<open>\<open>sep.join(xs)\<close>.\<close>

fun py_join :: "string \<Rightarrow> string list \<Rightarrow> string" where
  "py_join sep [] = []"
| "py_join sep [x] = x"
| "py_join sep (x # y # ys) = x @ sep @ py_join sep (y # ys)"

text \<open>Truthiness of an optional string (\<open>None\<close> and \<open>''\<close> are false).\<close>

fun truthy :: "string option \<Rightarrow> bool" where
  "truthy None = False"
| "truthy (Some s) = (s \<noteq> [])"

subsection \<open>\<open>repr\<close> and \<open>%\<close>-formatting\<close>

definition hex_digit :: "nat \<Rightarrow> char" where
  "hex_digit n = (''0123456789abcdef'') ! (n mod 16)"

definition escape_char :: "char \<Rightarrow> char \<Rightarrow> string" where
  "escape_char q c =
     (if c = CHR 0x5C then [CHR 0x5C, CHR 0x5C]
      else if c = q then [CHR 0x5C, q]
      else if c = CHR 0x09 then [CHR 0x5C, CHR ''t'']
      else if c = CHR 0x0A then [CHR 0x5C, CHR ''n'']
      else if c = CHR 0x0D then [CHR 0x5C, CHR ''r'']
      else if of_char c < (32::nat) \<or> (127::nat) \<le> of_char c
      then [CHR 0x5C, CHR ''x'', hex_digit (of_char c div 16), hex_digit (of_char c)]
      else [c])"

text \<open>
  The quote is \<open>'\<close> unless the text holds a \<open>'\<close> and no \<open>"\<close>. This is \<open>repr\<close> of a
  \<open>bytes\<close> body, and of a \<open>str\<close> made of ASCII characters.
\<close>

definition repr_body :: "string \<Rightarrow> string" where
  "repr_body s =
     (let q = (if CHR 0x27 \<in> set s \<and> CHR 0x22 \<notin> set s then CHR 0x22 else CHR 0x27)
      in [q] @ concat (map (escape_char q) s) @ [q])"

fun dec_nat :: "nat \<Rightarrow> string" where
  "dec_nat n = (if n < 10 then [hex_digit n] else dec_nat (n div 10) @ [hex_digit (n mod 10)])"

declare dec_nat.simps [simp del]

definition dec_int :: "int \<Rightarrow> string" where
  "dec_int i = (if i < 0 then CHR ''-'' # dec_nat (nat (- i)) else dec_nat (nat i))"

fun py_repr :: "pyval \<Rightarrow> string" where
  "py_repr (PStr s) = repr_body s"
| "py_repr (PBytes s) = CHR ''b'' # repr_body s"
| "py_repr (PInt i) = dec_int i"

fun py_str :: "pyval \<Rightarrow> string" where
  "py_str (PStr s) = s"
| "py_str (PBytes s) = CHR ''b'' # repr_body s"
| "py_str (PInt i) = dec_int i"

text \<open>
  \<open>fmt % args\<close> for the conversions the script uses (\<open>%s\<close>, \<open>%r\<close>, \<open>%d\<close>). A right
  operand that is not a tuple is the one-element argument list. \<open>%d\<close> of a non-number,
  a conversion with no argument left and an argument left over raise \<open>TypeError\<close>.
\<close>

fun py_format :: "string \<Rightarrow> pyval list \<Rightarrow> error + string" where
  "py_format [] args = (if args = [] then Inr [] else Inl TypeError)"
| "py_format [c] args = (if args = [] then Inr [c] else Inl TypeError)"
| "py_format (c # k # cs) args =
     (if c \<noteq> CHR ''%''
      then (case py_format (k # cs) args of Inl e \<Rightarrow> Inl e | Inr r \<Rightarrow> Inr (c # r))
      else (case args of
              [] \<Rightarrow> Inl TypeError
            | v # vs \<Rightarrow>
                (if k = CHR ''d'' \<and> (case v of PInt _ \<Rightarrow> False | _ \<Rightarrow> True)
                 then Inl TypeError
                 else (case py_format cs vs of
                         Inl e \<Rightarrow> Inl e
                       | Inr r \<Rightarrow>
                           Inr ((if k = CHR ''r'' then py_repr v else py_str v) @ r)))))"

section \<open>The process state: file system and output streams\<close>

text \<open>
  A directory entry is a regular file with its contents or a directory. The file system
  maps an absolute path, given as its list of components, to the entry there; the root
  is the empty list and always a directory. Symbolic links, permissions and special
  files are outside the model.
\<close>

datatype node = File string | Dir

record world =
  fs :: "string list \<Rightarrow> node option"
  stdout :: "string list"
  stderr :: "string list"

text \<open>
  A call either returns a value or raises; both leave a state behind. \<open>print\<close>
  appends one entry to \<open>stdout\<close>, \<open>sys.stderr.write\<close> one entry to \<open>stderr\<close>.
\<close>

datatype 'a outcome = Ok 'a world | Abort error world

definition seq :: "'a outcome \<Rightarrow> ('a \<Rightarrow> world \<Rightarrow> 'b outcome) \<Rightarrow> 'b outcome" where
  "seq m f = (case m of Ok x s \<Rightarrow> f x s | Abort e s \<Rightarrow> Abort e s)"

definition print :: "string \<Rightarrow> world \<Rightarrow> unit outcome" where
  "print line s = Ok () (s\<lparr>stdout := stdout s @ [line]\<rparr>)"

definition stderr_write :: "string \<Rightarrow> world \<Rightarrow> unit outcome" where
  "stderr_write text s = Ok () (s\<lparr>stderr := stderr s @ [text]\<rparr>)"

definition raise_format :: "error + string \<Rightarrow> world \<Rightarrow> string outcome" where
  "raise_format r s = (case r of Inl e \<Rightarrow> Abort e s | Inr text \<Rightarrow> Ok text s)"

subsection \<open>Paths\<close>

text \<open>
  A path string is resolved against the working directory of the process, which no
  statement of the script changes: empty and \<open>.\<close> components are dropped and \<open>..\<close>
  drops the component before it.
\<close>

definition path_step :: "string list \<Rightarrow> string \<Rightarrow> string list" where
  "path_step acc c =
     (if c = [] \<or> c = ''.'' then acc else if c = ''..'' then butlast acc else acc @ [c])"

definition resolve :: "string \<Rightarrow> string \<Rightarrow> string list" where
  "resolve cwd p =
     foldl path_step []
       ((if p \<noteq> [] \<and> hd p = CHR ''/'' then [] else py_split (CHR ''/'') cwd)
        @ py_split (CHR ''/'') p)"

definition trailing_slash :: "string \<Rightarrow> bool" where
  "trailing_slash p = (p \<noteq> [] \<and> last p = CHR ''/'')"

text \<open>
  A path string that can only name a directory: it ends in a slash or in a \<open>.\<close> or
  \<open>..\<close> component. \<open>ends_in_dot\<close> looks at the last component that is not empty, which
  is what \<open>rmdir\<close> refuses to remove.
\<close>

definition names_directory :: "string \<Rightarrow> bool" where
  "names_directory p =
     (trailing_slash p \<or> last (py_split (CHR ''/'') p) = ''.''
      \<or> last (py_split (CHR ''/'') p) = ''..'')"

definition last_component :: "string \<Rightarrow> string" where
  "last_component p =
     (case rev (filter (\<lambda>c. c \<noteq> []) (py_split (CHR ''/'') p)) of [] \<Rightarrow> [] | c # cs \<Rightarrow> c)"

definition ends_in_dot :: "string \<Rightarrow> bool" where
  "ends_in_dot p = (last_component p = ''.'' \<or> last_component p = ''..'')"

text \<open>
  What \<open>stat\<close> finds at a path: nothing for the empty string, and nothing for a regular
  file named by a path that can only name a directory.
\<close>

definition node_at :: "(string list \<Rightarrow> node option) \<Rightarrow> string list \<Rightarrow> node option" where
  "node_at f q = (if q = [] then Some Dir else f q)"

definition lookup :: "string \<Rightarrow> world \<Rightarrow> string \<Rightarrow> node option" where
  "lookup cwd s p =
     (if p = [] then None
      else (case node_at (fs s) (resolve cwd p) of
              Some (File c) \<Rightarrow> (if names_directory p then None else Some (File c))
            | n \<Rightarrow> n))"

definition path_exists :: "string \<Rightarrow> world \<Rightarrow> string \<Rightarrow> bool" where
  "path_exists cwd s p = (lookup cwd s p \<noteq> None)"

definition path_isfile :: "string \<Rightarrow> world \<Rightarrow> string \<Rightarrow> bool" where
  "path_isfile cwd s p = (case lookup cwd s p of Some (File c) \<Rightarrow> True | _ \<Rightarrow> False)"

definition path_isdir :: "string \<Rightarrow> world \<Rightarrow> string \<Rightarrow> bool" where
  "path_isdir cwd s p = (lookup cwd s p = Some Dir)"

text \<open>Whether some proper ancestor of a resolved path is a regular file.\<close>

definition blocked :: "(string list \<Rightarrow> node option) \<Rightarrow> string list \<Rightarrow> bool" where
  "blocked f q = list_ex (\<lambda>a. case f a of Some (File c) \<Rightarrow> True | _ \<Rightarrow> False) (prefixes (butlast q))"

subsection \<open>\<open>os\<close> and \<open>shutil\<close> calls\<close>

text \<open>
  \<open>shutil.rmtree(p)\<close>: deletes everything below the directory, then the directory by
  \<open>rmdir\<close>. That last step fails for the root directory and for a path whose last
  component is \<open>.\<close> (invalid argument) or \<open>..\<close> (the path through the deleted entry is
  gone): the call has emptied the directory and raises.
\<close>

definition rmtree :: "string \<Rightarrow> string \<Rightarrow> world \<Rightarrow> unit outcome" where
  "rmtree cwd p s =
     (case lookup cwd s p of
        None \<Rightarrow> Abort FileNotFoundError s
      | Some (File c) \<Rightarrow> Abort NotADirectoryError s
      | Some Dir \<Rightarrow>
          if resolve cwd p = [] \<or> ends_in_dot p
          then Abort (if last_component p = ''..'' then FileNotFoundError else OSError)
                 (s\<lparr>fs := (\<lambda>q. if strict_prefix (resolve cwd p) q then None else fs s q)\<rparr>)
          else Ok () (s\<lparr>fs := (\<lambda>q. if prefix (resolve cwd p) q then None else fs s q)\<rparr>))"

text \<open>\<open>os.makedirs(p)\<close>: creates the directory and every missing ancestor.\<close>

definition makedirs :: "string \<Rightarrow> string \<Rightarrow> world \<Rightarrow> unit outcome" where
  "makedirs cwd p s =
     (if p = [] then Abort FileNotFoundError s
      else if node_at (fs s) (resolve cwd p) \<noteq> None then Abort FileExistsError s
      else if blocked (fs s) (resolve cwd p) then Abort NotADirectoryError s
      else Ok () (s\<lparr>fs := (\<lambda>q. if q \<noteq> [] \<and> prefix q (resolve cwd p) then Some Dir
                                 else fs s q)\<rparr>))"

text \<open>\<open>os.remove(p)\<close>: deletes a regular file.\<close>

definition os_remove :: "string \<Rightarrow> string \<Rightarrow> world \<Rightarrow> unit outcome" where
  "os_remove cwd p s =
     (case lookup cwd s p of
        None \<Rightarrow> Abort FileNotFoundError s
      | Some Dir \<Rightarrow> Abort IsADirectoryError s
      | Some (File c) \<Rightarrow> Ok () (s\<lparr>fs := (fs s)(resolve cwd p := None)\<rparr>))"

text \<open>
  Opening a path for writing: it must not be a directory nor a path that can only name
  one, and its parent must be a directory.
\<close>

definition open_write_error :: "string \<Rightarrow> world \<Rightarrow> string \<Rightarrow> error option" where
  "open_write_error cwd s p =
     (let q = resolve cwd p in
      if p = [] then Some FileNotFoundError
      else if node_at (fs s) q = Some Dir then Some IsADirectoryError
      else if names_directory p
      then (case node_at (fs s) q of
              Some (File c) \<Rightarrow> Some NotADirectoryError
            | _ \<Rightarrow> if trailing_slash p then Some IsADirectoryError
                   else Some FileNotFoundError)
      else (case node_at (fs s) (butlast q) of
              None \<Rightarrow> Some FileNotFoundError
            | Some (File c) \<Rightarrow> Some NotADirectoryError
            | Some Dir \<Rightarrow> None))"

text \<open>\<open>shutil.copyfile(src, dst)\<close>: copies the contents of one regular file.\<close>

definition copyfile :: "string \<Rightarrow> string \<Rightarrow> string \<Rightarrow> world \<Rightarrow> unit outcome" where
  "copyfile cwd src dst s =
     (if lookup cwd s src \<noteq> None \<and> lookup cwd s dst \<noteq> None
         \<and> resolve cwd src = resolve cwd dst
      then Abort SameFileError s
      else (case lookup cwd s src of
              None \<Rightarrow> Abort FileNotFoundError s
            | Some Dir \<Rightarrow> Abort IsADirectoryError s
            | Some (File c) \<Rightarrow>
                (case open_write_error cwd s dst of
                   Some e \<Rightarrow> Abort e s
                 | None \<Rightarrow> Ok () (s\<lparr>fs := (fs s)(resolve cwd dst \<mapsto> File c)\<rparr>))))"

text \<open>
  \<open>shutil.ignore_patterns('.git*')\<close>: a name is left out when it starts with \<open>.git\<close>;
  so is everything below it.
\<close>

definition ignored :: "string \<Rightarrow> bool" where
  "ignored name = prefix ''.git'' name"

text \<open>
  \<open>shutil.copytree(src, dst, ignore=ignore_patterns('.git*'))\<close>: lists \<open>src\<close>, creates
  \<open>dst\<close> (which must not exist) with its ancestors, and copies every entry that is not
  ignored. When \<open>dst\<close> lies inside \<open>src\<close> below an entry that is listed and copied, the
  copy descends into its own output until the operating system refuses the path; the
  model raises then, in the state after \<open>dst\<close> was created.
\<close>

definition copytree :: "string \<Rightarrow> string \<Rightarrow> string \<Rightarrow> world \<Rightarrow> unit outcome" where
  "copytree cwd src dst s =
     (let a = resolve cwd src; b = resolve cwd dst in
      case lookup cwd s src of
        None \<Rightarrow> Abort FileNotFoundError s
      | Some (File c) \<Rightarrow> Abort NotADirectoryError s
      | Some Dir \<Rightarrow>
          (case makedirs cwd dst s of
             Abort e s' \<Rightarrow> Abort e s'
           | Ok u s' \<Rightarrow>
               (if strict_prefix a b \<and> fs s (take (Suc (length a)) b) \<noteq> None
                   \<and> \<not> ignored (b ! length a)
                then Abort ShutilError s'
                else Ok () (s'\<lparr>fs := (\<lambda>q.
                       if strict_prefix b q
                       then (if list_ex ignored (drop (length b) q) then None
                             else fs s (a @ drop (length b) q))
                       else fs s' q)\<rparr>))))"

text \<open>Reading a whole text file, and appending to one (which creates it when missing).\<close>

definition read_file :: "string \<Rightarrow> string \<Rightarrow> world \<Rightarrow> string outcome" where
  "read_file cwd p s =
     (case lookup cwd s p of
        None \<Rightarrow> Abort FileNotFoundError s
      | Some Dir \<Rightarrow> Abort IsADirectoryError s
      | Some (File c) \<Rightarrow> Ok c s)"

definition append_file :: "string \<Rightarrow> string \<Rightarrow> string \<Rightarrow> world \<Rightarrow> unit outcome" where
  "append_file cwd p text s =
     (case open_write_error cwd s p of
        Some e \<Rightarrow> Abort e s
      | None \<Rightarrow>
          Ok () (s\<lparr>fs := (fs s)(resolve cwd p \<mapsto>
                   File ((case fs s (resolve cwd p) of Some (File c) \<Rightarrow> c | _ \<Rightarrow> []) @ text))\<rparr>))"

section \<open>Collaborators outside the script\<close>

text \<open>
  The script calls GitPython and \<open>subprocess\<close>; what they do is not in the repository.
  They are parameters of the model: each is a function on the process state that returns
  or raises. \<open>popen\<close> stands for \<open>Popen(...)\<close>, \<open>wait()\<close> and \<open>communicate()\<close> together and
  yields the exit status with the captured output and error text. \<open>create_submodule\<close>
  yields the \<open>hexsha\<close> of the submodule it made. \<open>getcwd\<close> is \<open>os.getcwd()\<close>.
\<close>

record env =
  getcwd :: string
  popen :: "string \<Rightarrow> string option \<Rightarrow> world \<Rightarrow> (int \<times> string \<times> string) outcome"
  git_Repo :: "string \<Rightarrow> world \<Rightarrow> error option"
  create_submodule :: "string \<Rightarrow> string \<Rightarrow> string \<Rightarrow> string \<Rightarrow> world \<Rightarrow> string outcome"
  submodule_remove :: "string \<Rightarrow> world \<Rightarrow> unit outcome"
  git_init :: "string \<Rightarrow> world \<Rightarrow> unit outcome"

section \<open>Data model\<close>

text \<open>
  The dictionary of one module in the YAML file, restricted to the keys \<open>Module.__init__\<close>
  accepts; a key that is absent is \<open>None\<close>.
\<close>

record module_config =
  cfg_repository :: "string option"
  cfg_path :: "string option"
  cfg_branch :: "string option"
  cfg_hexsha :: "string option"
  cfg_tag :: "string option"
  cfg_isfile :: "bool option"

record Module =
  name :: string
  repository :: string
  path :: string
  branch :: string
  hexsha :: "string option"
  tag :: "string option"
  isfile :: bool

text \<open>
  \<open>modules\<close> is what \<open>config.get('modules')\<close> returns: \<open>None\<close> when the key is missing or
  empty in the file, else the entries in file order. \<open>gitignore\<close> is the truth value of
  \<open>config.get('gitignore')\<close>.
\<close>

record config =
  modules :: "(string \<times> module_config) list option"
  gitignore :: bool

datatype deps = NoDeps | DepsMapping "(string \<times> string) list" | DepsOther

record profile =
  dependencies :: deps
  tasks :: "string list"

record stats =
  n_tasks :: int
  n_dependencies :: int

section \<open>The script\<close>

text \<open>\<open>Module.from_config\<close> (lines 45-57).\<close>

definition from_config :: "string \<Rightarrow> module_config \<Rightarrow> world \<Rightarrow> Module outcome" where
  "from_config nm mc s =
     (case cfg_repository mc of
        None \<Rightarrow>
          seq (stderr_write (''Module does not specify a '' @ [CHR 0x27] @ ''repository''
                             @ [CHR 0x27, CHR 0x0A]) s)
            (\<lambda>_ s. Abort (SystemExit 1) s)
      | Some r \<Rightarrow>
          Ok \<lparr>name = nm, repository = r,
              path = (case cfg_path mc of None \<Rightarrow> [] | Some p \<Rightarrow> p),
              branch = (case cfg_branch mc of None \<Rightarrow> ''master'' | Some b \<Rightarrow> b),
              hexsha = cfg_hexsha mc,
              tag = cfg_tag mc,
              isfile = (case cfg_isfile mc of None \<Rightarrow> False | Some b \<Rightarrow> b)\<rparr> s)"

text \<open>\<open>_remove_dir\<close> (lines 73-78) and \<open>_create_dir\<close> (lines 81-84).\<close>

definition remove_dir :: "env \<Rightarrow> string \<Rightarrow> world \<Rightarrow> bool outcome" where
  "remove_dir e directory s =
     (if path_exists (getcwd e) s directory
      then seq (rmtree (getcwd e) directory s) (\<lambda>_ s. Ok True s)
      else Ok False s)"

definition create_dir :: "env \<Rightarrow> string \<Rightarrow> world \<Rightarrow> unit outcome" where
  "create_dir e directory s =
     (if \<not> path_exists (getcwd e) s directory
      then makedirs (getcwd e) directory s
      else Ok () s)"

text \<open>
  \<open>_nice_call\<close> (lines 106-122). On a non-zero status the message is formatted with two
  conversions from the single value \<open>stderr\<close> before anything is written.
\<close>

definition nice_call :: "env \<Rightarrow> string \<Rightarrow> string option \<Rightarrow> world \<Rightarrow> unit outcome" where
  "nice_call e command cwd s =
     (let workdir = (case cwd of Some d \<Rightarrow> d | None \<Rightarrow> getcwd e) in
      seq (raise_format (py_format ''Executing %r in %s...'' [PStr command, PStr workdir]) s)
        (\<lambda>line s. seq (print line s)
        (\<lambda>_ s. seq (popen e command cwd s)
        (\<lambda>(ret, out, err) s.
           if ret = 0
           then seq (raise_format (py_format (''Got stdout:'' @ [CHR 0x0A] @ ''%s'') [PBytes out]) s)
                  (\<lambda>line s. print line s)
           else seq (raise_format
                       (py_format (''Command failed with status %d, stderr='' @ [CHR 0x0A] @ ''%s'')
                          [PBytes err]) s)
                  (\<lambda>text s. seq (stderr_write text s)
                  (\<lambda>_ s. Abort (SystemExit 1) s))))))"

text \<open>
  Loading a name that is bound nowhere: \<open>tag\<close> (line 154) and \<open>hexsha\<close> (line 159) are
  neither locals of \<open>_fetch_modules\<close> nor globals of the script nor builtins.
\<close>

definition free_variable :: "string \<Rightarrow> world \<Rightarrow> string outcome" where
  "free_variable n s = Abort NameError s"

definition modules_dir :: string where
  "modules_dir = ''.quack/modules''"

text \<open>Lines 145-163 of \<open>_fetch_modules\<close>: clone the module and resolve the checkout target.\<close>

definition checkout :: "env \<Rightarrow> Module \<Rightarrow> world \<Rightarrow> string outcome" where
  "checkout e m s =
     seq (print (''Cloning: '' @ repository m) s)
       (\<lambda>_ s. seq (create_submodule e (name m) (modules_dir @ ''/'' @ name m)
                      (repository m) (branch m) s)
       (\<lambda>sub_module_hexsha s.
          if truthy (tag m)
          then seq (free_variable ''tag'' s)
                 (\<lambda>t s. seq (raise_format (py_format ''git checkout --quiet tags/%s'' [PStr t]) s)
                 (\<lambda>cmd s. seq (nice_call e cmd (Some (modules_dir @ ''/'' @ name m)) s)
                 (\<lambda>_ s. Ok (the (tag m)) s)))
          else if truthy (hexsha m)
          then seq (free_variable ''hexsha'' s)
                 (\<lambda>h s. seq (raise_format (py_format ''git checkout --quiet %s'' [PStr h]) s)
                 (\<lambda>cmd s. seq (nice_call e cmd (Some (modules_dir @ ''/'' @ name m)) s)
                 (\<lambda>_ s. Ok (the (hexsha m)) s)))
          else Ok sub_module_hexsha s))"

text \<open>Lines 165-178: copy the fetched tree or file to the destination named after the module.\<close>

definition from_path :: "Module \<Rightarrow> string" where
  "from_path m = modules_dir @ ''/'' @ name m @ ''/'' @ path m"

definition materialize :: "env \<Rightarrow> Module \<Rightarrow> world \<Rightarrow> unit outcome" where
  "materialize e m s =
     (let is_exists = path_exists (getcwd e) s (from_path m) in
      if (path m \<noteq> [] \<and> is_exists) \<or> path m = []
      then (if isfile m
            then seq (if path_isfile (getcwd e) s (name m)
                      then os_remove (getcwd e) (name m) s else Ok () s)
                   (\<lambda>_ s. copyfile (getcwd e) (from_path m) (name m) s)
            else seq (remove_dir e (name m) s)
                   (\<lambda>_ s. copytree (getcwd e) (from_path m) (name m) s))
      else if \<not> is_exists
      then print (path m @ '' folder does not exists. Skipped.'') s
      else Ok () s)"

text \<open>
  Lines 180-192: remove the submodule, report, and record the module in \<open>.gitignore\<close>.
  The ignore list is returned as the loop carries it on.
\<close>

definition detach ::
  "env \<Rightarrow> config \<Rightarrow> Module \<Rightarrow> string \<Rightarrow> string list \<Rightarrow> world \<Rightarrow> string list outcome" where
  "detach e cfg m checkout_target ignore_list s =
     seq (submodule_remove e (name m) s)
       (\<lambda>_ s. seq (if path_isfile (getcwd e) s ''.gitmodules''
                    then seq (nice_call e ''rm .gitmodules'' None s)
                           (\<lambda>_ s. nice_call e ''git rm --quiet --cached .gitmodules'' None s)
                    else Ok () s)
       (\<lambda>_ s. seq (raise_format
                      (py_format ''Cloned: %s (%s)'' [PStr (name m), PStr checkout_target]) s)
       (\<lambda>line s. seq (print line s)
       (\<lambda>_ s. if gitignore cfg
               then (if name m \<notin> set ignore_list
                     then seq (append_file (getcwd e) ''.gitignore'' ([CHR 0x0A] @ name m) s)
                            (\<lambda>_ s. Ok (ignore_list @ [name m]) s)
                     else seq (append_file (getcwd e) ''.gitignore'' [] s)
                            (\<lambda>_ s. Ok ignore_list s))
               else Ok ignore_list s))))"

definition fetch_module ::
  "env \<Rightarrow> config \<Rightarrow> Module \<Rightarrow> string list \<Rightarrow> world \<Rightarrow> string list outcome" where
  "fetch_module e cfg m ignore_list s =
     seq (checkout e m s)
       (\<lambda>checkout_target s. seq (materialize e m s)
       (\<lambda>_ s. detach e cfg m checkout_target ignore_list s))"

text \<open>
  The loop of lines 139-192 over \<open>_iter_modules(config)\<close>, a generator: the \<open>Module\<close> of
  an entry is built when the loop reaches it.
\<close>

fun fetch_loop ::
  "env \<Rightarrow> config \<Rightarrow> string option \<Rightarrow> (string \<times> module_config) list \<Rightarrow> string list
   \<Rightarrow> world \<Rightarrow> unit outcome" where
  "fetch_loop e cfg specific_module [] ignore_list s = Ok () s"
| "fetch_loop e cfg specific_module ((nm, mc) # rest) ignore_list s =
     seq (from_config nm mc s)
       (\<lambda>m s.
          if truthy specific_module \<and> specific_module \<noteq> Some (name m)
          then fetch_loop e cfg specific_module rest ignore_list s
          else if truthy (tag m) \<and> truthy (hexsha m)
          then seq (raise_format (py_format ''%s: Cannot be both tag & hexsha.'' [PStr (name m)]) s)
                 (\<lambda>line s. seq (print line s)
                 (\<lambda>_ s. fetch_loop e cfg specific_module rest ignore_list s))
          else seq (fetch_module e cfg m ignore_list s)
                 (\<lambda>ignore_list s. fetch_loop e cfg specific_module rest ignore_list s))"

text \<open>
  Lines 131-138: what a pass does before its first module. The ignore list is built
  from a set, so its order is not fixed; only membership in it is ever tested.
\<close>

definition fetch_setup :: "env \<Rightarrow> config \<Rightarrow> world \<Rightarrow> string list outcome" where
  "fetch_setup e cfg s =
     seq (remove_dir e ''.git/modules/'' s)
       (\<lambda>_ s. seq (create_dir e modules_dir s)
       (\<lambda>_ s. seq (if gitignore cfg \<and> path_isfile (getcwd e) s ''.gitignore''
                    then seq (read_file (getcwd e) ''.gitignore'' s)
                           (\<lambda>text s. Ok (remdups (py_split (CHR 0x0A) text)) s)
                    else Ok [] s)
       (\<lambda>ignore_list s.
          (case git_Repo e ''.'' s of
             Some err \<Rightarrow> Abort err s
           | None \<Rightarrow> Ok ignore_list s))))"

text \<open>\<open>_fetch_modules\<close> (lines 125-192).\<close>

definition fetch_modules :: "env \<Rightarrow> config \<Rightarrow> string option \<Rightarrow> world \<Rightarrow> unit outcome" where
  "fetch_modules e cfg specific_module s =
     (case modules cfg of
        None \<Rightarrow> print ''No modules found.'' s
      | Some module_list \<Rightarrow>
          if module_list = [] then print ''No modules found.'' s
          else seq (fetch_setup e cfg s)
                 (\<lambda>ignore_list s. fetch_loop e cfg specific_module module_list ignore_list s))"

text \<open>\<open>_clean_modules\<close> (lines 195-201).\<close>

fun clean_loop ::
  "env \<Rightarrow> string option \<Rightarrow> (string \<times> module_config) list \<Rightarrow> world \<Rightarrow> unit outcome" where
  "clean_loop e specific_module [] s = Ok () s"
| "clean_loop e specific_module ((nm, mc) # rest) s =
     (if truthy specific_module \<and> specific_module \<noteq> Some nm
      then clean_loop e specific_module rest s
      else seq (remove_dir e nm s)
             (\<lambda>removed s. seq (if removed then print (''Cleaned '' @ nm) s else Ok () s)
             (\<lambda>_ s. clean_loop e specific_module rest s)))"

definition clean_modules :: "env \<Rightarrow> config \<Rightarrow> string option \<Rightarrow> world \<Rightarrow> unit outcome" where
  "clean_modules e cfg specific_module s =
     (case modules cfg of
        None \<Rightarrow> Abort AttributeError s
      | Some module_list \<Rightarrow> clean_loop e specific_module module_list s)"

text \<open>
  \<open>_run_nested_quack\<close> (lines 204-226). \<open>nested_module\<close> is the directory the nested run is
  rooted at, \<open>nested_command\<close> the argument list built for it.
\<close>

definition nested_module :: "env \<Rightarrow> string \<Rightarrow> string" where
  "nested_module e quack =
     (let slash_index = py_rfind quack (CHR ''/'') in
      if slash_index > 0 then py_slice quack 0 slash_index else getcwd e)"

definition nested_command :: "string \<Rightarrow> string list" where
  "nested_command quack =
     (let slash_index = py_rfind quack (CHR ''/'');
          colon_index = py_find quack '':'' in
      [''quack'']
      @ (if int (length quack) > colon_index + 1
         then [''-p'', py_slice quack (colon_index + 1) (int (length quack))] else [])
      @ (if colon_index > 0
         then [''-y'', py_slice quack (slash_index + 1) colon_index] else []))"

definition run_nested_quack :: "env \<Rightarrow> string \<times> string \<Rightarrow> world \<Rightarrow> bool option outcome" where
  "run_nested_quack e dependency s =
     (if fst dependency \<noteq> ''quack'' then Ok None s
      else (let quack = snd dependency; module = nested_module e quack in
            seq (print (''Quack..'' @ module) s)
              (\<lambda>_ s. seq (git_init e module s)
              (\<lambda>_ s. seq (create_dir e module s)
              (\<lambda>_ s. seq (nice_call e (py_join '' '' (nested_command quack)) (Some module) s)
              (\<lambda>_ s. seq (remove_dir e (module @ ''/.git'') s)
              (\<lambda>_ s. Ok (Some True) s)))))))"

text \<open>The body of the task loop of \<open>_run_tasks\<close> (lines 243-262) for one task string.\<close>

definition run_task :: "env \<Rightarrow> config \<Rightarrow> string \<Rightarrow> world \<Rightarrow> unit outcome" where
  "run_task e cfg task s =
     (case task of
        [] \<Rightarrow> Abort IndexError s
      | c0 # cs \<Rightarrow>
          (let is_negate = (c0 = CHR ''-'');
               command = (if is_negate then cs else task);
               is_modules = (py_find command ''modules:'' = 0 \<or> ''modules'' = command);
               is_quack = (py_find command ''quack:'' = 0);
               is_cmd = (py_find command ''cmd:'' = 0) in
           seq (if is_modules \<and> command \<noteq> ''modules''
                then Ok (Some (py_remove_all ''modules:'' command)) s
                else if is_quack
                then seq (run_nested_quack e (''quack'', py_remove_all ''quack:'' command) s)
                       (\<lambda>_ s. Ok None s)
                else if is_cmd
                then seq (nice_call e (py_remove_all ''cmd:'' command) None s)
                       (\<lambda>_ s. Ok None s)
                else Ok None s)
             (\<lambda>module s.
                if is_modules \<and> \<not> is_negate then fetch_modules e cfg module s
                else if is_modules \<and> is_negate then clean_modules e cfg module s
                else Ok () s)))"

text \<open>The two loops of \<open>_run_tasks\<close>, each carrying the statistics.\<close>

fun dependencies_loop :: "env \<Rightarrow> (string \<times> string) list \<Rightarrow> stats \<Rightarrow> world \<Rightarrow> stats outcome" where
  "dependencies_loop e [] st s = Ok st s"
| "dependencies_loop e (dependency # rest) st s =
     seq (run_nested_quack e dependency s)
       (\<lambda>_ s. dependencies_loop e rest (st\<lparr>n_dependencies := n_dependencies st + 1\<rparr>) s)"

fun tasks_loop :: "env \<Rightarrow> config \<Rightarrow> string list \<Rightarrow> stats \<Rightarrow> world \<Rightarrow> stats outcome" where
  "tasks_loop e cfg [] st s = Ok st s"
| "tasks_loop e cfg (command # rest) st s =
     (let st' = st\<lparr>n_tasks := n_tasks st + 1\<rparr> in
      seq (run_task e cfg command s) (\<lambda>_ s. tasks_loop e cfg rest st' s))"

text \<open>\<open>_run_tasks\<close> (lines 229-263).\<close>

definition run_tasks :: "env \<Rightarrow> config \<Rightarrow> profile \<Rightarrow> world \<Rightarrow> stats outcome" where
  "run_tasks e cfg prof s =
     seq (case dependencies prof of
            DepsMapping ds \<Rightarrow> dependencies_loop e ds \<lparr>n_tasks = 0, n_dependencies = 0\<rparr> s
          | _ \<Rightarrow> Ok \<lparr>n_tasks = 0, n_dependencies = 0\<rparr> s)
       (\<lambda>st s.
          if tasks prof = [] then seq (print ''No tasks found.'' s) (\<lambda>_ s. Ok st s)
          else tasks_loop e cfg (tasks prof) st s)"

section \<open>Observing an outcome\<close>

definition returned :: "'a outcome \<Rightarrow> bool" where
  "returned r = (case r of Ok x s \<Rightarrow> True | Abort err s \<Rightarrow> False)"

definition final :: "'a outcome \<Rightarrow> world" where
  "final r = (case r of Ok x s \<Rightarrow> s | Abort err s \<Rightarrow> s)"

definition raised :: "'a outcome \<Rightarrow> error option" where
  "raised r = (case r of Ok x s \<Rightarrow> None | Abort err s \<Rightarrow> Some err)"

text \<open>The line \<open>_nice_call\<close> prints before it starts the child process.\<close>

definition executing :: "env \<Rightarrow> string \<Rightarrow> string option \<Rightarrow> string" where
  "executing e command cwd =
     ''Executing '' @ repr_body command @ '' in ''
       @ (case cwd of Some d \<Rightarrow> d | None \<Rightarrow> getcwd e) @ ''...''"

section \<open>A concrete environment for running the model\<close>

text \<open>
  A small world to evaluate the script in: the project directory \<open>/w\<close>, a remote whose
  checkout holds a few files, child processes that succeed (or, in \<open>failing_env\<close>, exit
  with status 1 and the error text \<open>boom\<close>).
\<close>

definition demo_tree :: "(string list \<times> node) list" where
  "demo_tree =
     [([], Dir),
      ([''README''], File ''hello''),
      ([''.git''], File ''gitdir: ../../../.git/modules/lib''),
      ([''src''], Dir),
      ([''src'', ''a.py''], File ''pass'')]"

definition demo_env :: env where
  "demo_env =
     \<lparr>getcwd = ''/w'',
      popen = (\<lambda>command cwd s.
                 Ok (0, [], [])
                    (if command = ''rm .gitmodules''
                     then s\<lparr>fs := (fs s)([''w'', ''.gitmodules''] := None)\<rparr> else s)),
      git_Repo = (\<lambda>p s. None),
      create_submodule = (\<lambda>nm p url br s.
                 Ok ''0a1b2c''
                    (s\<lparr>fs := (\<lambda>q. if prefix (resolve ''/w'' p) q
                                   then map_of demo_tree (drop (length (resolve ''/w'' p)) q)
                                   else if q = [''w'', ''.gitmodules'']
                                   then Some (File ''[submodule]'')
                                   else fs s q)\<rparr>)),
      submodule_remove = (\<lambda>nm s.
                 Ok () (s\<lparr>fs := (\<lambda>q. if prefix (resolve ''/w'' (''.quack/modules/'' @ nm)) q
                                        then None else fs s q)\<rparr>)),
      git_init = (\<lambda>p s.
                 Ok () (s\<lparr>fs := (fs s)(resolve ''/w'' p \<mapsto> Dir,
                                         resolve ''/w'' (p @ ''/.git'') \<mapsto> Dir)\<rparr>))\<rparr>"

definition failing_env :: env where
  "failing_env = demo_env\<lparr>popen := (\<lambda>command cwd s. Ok (1, [], ''boom'') s)\<rparr>"

definition demo_world :: world where
  "demo_world =
     \<lparr>fs = (\<lambda>q. if q = [''w''] then Some Dir else None), stdout = [], stderr = []\<rparr>"

definition lib_config :: module_config where
  "lib_config =
     \<lparr>cfg_repository = Some ''https://x/lib.git'', cfg_path = None,
      cfg_branch = Some ''main'', cfg_hexsha = None, cfg_tag = None, cfg_isfile = None\<rparr>"

definition demo_config :: config where
  "demo_config = \<lparr>modules = Some [(''lib'', lib_config)], gitignore = False\<rparr>"

text \<open>A configuration with a second module, vendored as the single file \<open>README\<close>.\<close>

definition readme_config :: config where
  "readme_config =
     \<lparr>modules = Some [(''lib'', lib_config),
                      (''readme'', lib_config\<lparr>cfg_path := Some ''README'',
                                               cfg_isfile := Some True\<rparr>)],
      gitignore = False\<rparr>"

text \<open>
  Two configurations whose module is named by a path: below a directory that does not
  exist yet, and ending in a \<open>.\<close> component.
\<close>

definition nested_config :: config where
  "nested_config = \<lparr>modules = Some [(''a/b'', lib_config)], gitignore = False\<rparr>"

definition dot_config :: config where
  "dot_config = \<lparr>modules = Some [(''lib/.'', lib_config)], gitignore = False\<rparr>"

text \<open>A project directory where an earlier run left \<open>lib/old.txt\<close> behind.\<close>

definition stale_world :: world where
  "stale_world =
     \<lparr>fs = (\<lambda>q. if q = [''w''] \<or> q = [''w'', ''lib''] then Some Dir
                  else if q = [''w'', ''lib'', ''old.txt''] then Some (File ''stale'')
                  else None),
      stdout = [], stderr = []\<rparr>"

text \<open>The \<open>Module\<close> that \<open>from_config\<close> builds from \<open>lib_config\<close>.\<close>

definition lib_module :: Module where
  "lib_module =
     \<lparr>name = ''lib'', repository = ''https://x/lib.git'', path = [], branch = ''main'',
      hexsha = None, tag = None, isfile = False\<rparr>"

section \<open>Contents below a path\<close>

text \<open>The entries at and below a path, by their paths relative to it.\<close>

definition below :: "string list \<Rightarrow> world \<Rightarrow> string list \<Rightarrow> node option" where
  "below d s = (\<lambda>r. fs s (d @ r))"

definition disjoint_paths :: "string list \<Rightarrow> string list \<Rightarrow> bool" where
  "disjoint_paths a b = (\<not> prefix a b \<and> \<not> prefix b a)"

text \<open>
  What the model asks of the collaborators for one module: creating the submodule
  always leaves the same tree \<open>T\<close> at the path the copy reads from, and neither it nor
  removing the submodule nor the two clean-up commands touch the destination.
\<close>

definition tidy_collaborators :: "env \<Rightarrow> Module \<Rightarrow> (string list \<Rightarrow> node option) \<Rightarrow> bool" where
  "tidy_collaborators e m T =
     ((\<forall>s h s'. create_submodule e (name m) (modules_dir @ ''/'' @ name m) (repository m)
                    (branch m) s = Ok h s'
          \<longrightarrow> below (resolve (getcwd e) (from_path m)) s' = T
              \<and> below (resolve (getcwd e) (name m)) s' = below (resolve (getcwd e) (name m)) s)
      \<and> (\<forall>s u s'. submodule_remove e (name m) s = Ok u s'
          \<longrightarrow> below (resolve (getcwd e) (name m)) s' = below (resolve (getcwd e) (name m)) s)
      \<and> (\<forall>c s r s'. (c = ''rm .gitmodules'' \<or> c = ''git rm --quiet --cached .gitmodules'')
                      \<and> popen e c None s = Ok r s'
          \<longrightarrow> below (resolve (getcwd e) (name m)) s' = below (resolve (getcwd e) (name m)) s))"

text \<open>
  The destination of a module lies apart from the paths the pass itself works on: the
  checkout it copies from, \<open>.git/modules\<close>, the private working area and, when the
  ignore list is kept, \<open>.gitignore\<close>.
\<close>

definition destination_apart :: "env \<Rightarrow> config \<Rightarrow> Module \<Rightarrow> bool" where
  "destination_apart e cfg m =
     (disjoint_paths (resolve (getcwd e) (name m)) (resolve (getcwd e) (from_path m))
      \<and> disjoint_paths (resolve (getcwd e) (name m)) (resolve (getcwd e) ''.git/modules/'')
      \<and> \<not> prefix (resolve (getcwd e) (name m)) (resolve (getcwd e) modules_dir)
      \<and> (gitignore cfg \<longrightarrow>
             \<not> prefix (resolve (getcwd e) (name m)) (resolve (getcwd e) ''.gitignore'')))"

section \<open>Basic facts\<close>

lemma seq_Ok [simp]: "seq (Ok x s) f = f x s"
  by (simp add: seq_def)

lemma seq_Abort [simp]: "seq (Abort err s) f = Abort err s"
  by (simp add: seq_def)

lemma seq_eq_Ok: "seq m f = Ok y s' \<longleftrightarrow> (\<exists>x s. m = Ok x s \<and> f x s = Ok y s')"
  by (cases m) simp_all

section \<open>The task interpreter\<close>

lemma tasks_loop_append:
  "tasks_loop e cfg (pre @ post) st s =
     seq (tasks_loop e cfg pre st s) (\<lambda>st' s'. tasks_loop e cfg post st' s')"
proof (induction pre arbitrary: st s)
  case Nil
  show ?case by simp
next
  case (Cons a pre)
  show ?case
    by (cases "run_task e cfg a s") (simp_all add: Cons.IH Let_def)
qed

lemma run_task_empty: "run_task e cfg [] s = Abort IndexError s"
  by (simp add: run_task_def)

text \<open>
  Claim C8. The first character of a task string is read before anything else, so the
  empty task string raises \<open>IndexError\<close>: a profile that holds it fails at that task,
  once the tasks before it have run. A non-empty task string that has none of the
  three forms, with or without the leading \<open>-\<close>, is inert: it returns and changes
  nothing.
\<close>

theorem C8_empty_task_raises:
  "run_task e cfg [] s = Abort IndexError s
   \<and> tasks_loop e cfg (pre @ [] # post) st s =
       (case tasks_loop e cfg pre st s of
          Ok st' s' \<Rightarrow> Abort IndexError s'
        | Abort err s' \<Rightarrow> Abort err s')
   \<and> (\<forall>c cs. (let command = (if c = CHR ''-'' then cs else c # cs) in
               py_find command ''modules:'' \<noteq> 0 \<and> command \<noteq> ''modules''
               \<and> py_find command ''quack:'' \<noteq> 0 \<and> py_find command ''cmd:'' \<noteq> 0)
              \<longrightarrow> run_task e cfg (c # cs) s = Ok () s)"
proof (intro conjI allI impI)
  show "run_task e cfg [] s = Abort IndexError s"
    by (rule run_task_empty)
  show "tasks_loop e cfg (pre @ [] # post) st s =
       (case tasks_loop e cfg pre st s of
          Ok st' s' \<Rightarrow> Abort IndexError s'
        | Abort err s' \<Rightarrow> Abort err s')"
    by (simp add: tasks_loop_append run_task_empty Let_def seq_def split: outcome.splits)
next
  fix c cs
  assume "let command = (if c = CHR ''-'' then cs else c # cs) in
               py_find command ''modules:'' \<noteq> 0 \<and> command \<noteq> ''modules''
               \<and> py_find command ''quack:'' \<noteq> 0 \<and> py_find command ''cmd:'' \<noteq> 0"
  then show "run_task e cfg (c # cs) s = Ok () s"
    by (auto simp: run_task_def Let_def split: if_splits)
qed

theorem C8_witness:
  "run_task demo_env demo_config [] demo_world = Abort IndexError demo_world
   \<and> raised (run_tasks demo_env demo_config
               \<lparr>dependencies = NoDeps, tasks = [''noop'', [], ''modules'']\<rparr> demo_world)
       = Some IndexError
   \<and> run_task demo_env demo_config ''noop'' demo_world = Ok () demo_world
   \<and> run_task demo_env demo_config ''-'' demo_world = Ok () demo_world"
proof -
  note t = C8_empty_task_raises [of demo_env demo_config demo_world "[''noop'']" "[''modules'']"
      "\<lparr>n_tasks = 0, n_dependencies = 0\<rparr>"]
  have a: "run_task demo_env demo_config ''noop'' demo_world = Ok () demo_world"
    using t by (simp add: py_find_def Let_def)
  have b: "run_task demo_env demo_config ''-'' demo_world = Ok () demo_world"
    using t by (simp add: py_find_def Let_def)
  have c: "raised (run_tasks demo_env demo_config
               \<lparr>dependencies = NoDeps, tasks = [''noop'', [], ''modules'']\<rparr> demo_world)
       = Some IndexError"
    using t a by (simp add: run_tasks_def raised_def Let_def)
  show ?thesis using t a b c by simp
qed

text \<open>
  Claim C9. With no \<open>modules\<close> mapping in the configuration, fetching prints
  \<open>No modules found.\<close> and returns, while cleaning raises \<open>AttributeError\<close>, as
  \<open>_clean_modules\<close> calls \<open>.items()\<close> on the missing mapping. The same holds for the
  tasks \<open>modules\<close> and \<open>-modules\<close>.
\<close>

theorem C9_missing_modules_asymmetry:
  "fetch_modules e (cfg\<lparr>modules := None\<rparr>) specific_module s
     = Ok () (s\<lparr>stdout := stdout s @ [''No modules found.'']\<rparr>)
   \<and> clean_modules e (cfg\<lparr>modules := None\<rparr>) specific_module s = Abort AttributeError s
   \<and> run_task e (cfg\<lparr>modules := None\<rparr>) ''modules'' s
     = Ok () (s\<lparr>stdout := stdout s @ [''No modules found.'']\<rparr>)
   \<and> run_task e (cfg\<lparr>modules := None\<rparr>) ''-modules'' s = Abort AttributeError s"
  by (simp add: fetch_modules_def clean_modules_def run_task_def print_def py_find_def Let_def)

theorem C9_witness:
  "run_task demo_env \<lparr>modules = None, gitignore = True\<rparr> ''modules'' demo_world
     = Ok () (demo_world\<lparr>stdout := [''No modules found.'']\<rparr>)
   \<and> run_task demo_env \<lparr>modules = None, gitignore = True\<rparr> ''-modules'' demo_world
     = Abort AttributeError demo_world"
  using C9_missing_modules_asymmetry
    [of demo_env "\<lparr>modules = None, gitignore = True\<rparr>" None demo_world]
  by (simp add: demo_world_def)

section \<open>Child processes\<close>

lemma format_executing:
  "py_format ''Executing %r in %s...'' [PStr command, PStr workdir]
     = Inr (''Executing '' @ repr_body command @ '' in '' @ workdir @ ''...'')"
  by simp

lemma format_failed:
  "py_format (''Command failed with status %d, stderr='' @ [CHR 0x0A] @ ''%s'') [PBytes err]
     = Inl TypeError"
  by simp

lemma nice_call_cases:
  "nice_call e command cwd s =
     (case popen e command cwd (s\<lparr>stdout := stdout s @ [executing e command cwd]\<rparr>) of
        Abort x s1 \<Rightarrow> Abort x s1
      | Ok r s1 \<Rightarrow>
          if fst r = 0
          then Ok () (s1\<lparr>stdout := stdout s1 @
                         [''Got stdout:'' @ [CHR 0x0A] @ CHR ''b'' # repr_body (fst (snd r))]\<rparr>)
          else Abort TypeError s1)"
  unfolding nice_call_def Let_def format_executing format_failed executing_def
  by (simp add: raise_format_def print_def split: outcome.splits prod.splits)

text \<open>
  Claim C5. When the child process exits with a non-zero status, \<open>_nice_call\<close> raises
  \<open>TypeError\<close> while it formats the message: nothing is written to \<open>stderr\<close> and
  \<open>sys.exit(1)\<close> is not reached. The process still ends there, so no later task runs.
\<close>

theorem C5_failed_command_raises_TypeError:
  assumes "popen e command cwd (s\<lparr>stdout := stdout s @ [executing e command cwd]\<rparr>)
             = Ok (ret, out, err) s1"
      and "ret \<noteq> 0"
  shows "nice_call e command cwd s = Abort TypeError s1"
  using assms by (simp add: nice_call_cases)

theorem C5_witness:
  "nice_call failing_env ''false'' None demo_world
     = Abort TypeError (demo_world\<lparr>stdout := [''Executing '' @ [CHR 0x27] @ ''false''
                                                  @ [CHR 0x27] @ '' in /w...'']\<rparr>)
   \<and> raised (run_tasks failing_env demo_config
               \<lparr>dependencies = NoDeps, tasks = [''cmd:false'', ''cmd:echo hi'']\<rparr> demo_world)
       = Some TypeError
   \<and> stderr (final (run_tasks failing_env demo_config
               \<lparr>dependencies = NoDeps, tasks = [''cmd:false'', ''cmd:echo hi'']\<rparr> demo_world))
       = []"
proof -
  have a: "nice_call failing_env ''false'' None demo_world
     = Abort TypeError (demo_world\<lparr>stdout := [''Executing '' @ [CHR 0x27] @ ''false''
                                                  @ [CHR 0x27] @ '' in /w...'']\<rparr>)"
    using C5_failed_command_raises_TypeError
      [of failing_env "''false''" None demo_world 1 "[]" "''boom''"
          "demo_world\<lparr>stdout := [''Executing '' @ [CHR 0x27] @ ''false''
                                                  @ [CHR 0x27] @ '' in /w...'']\<rparr>"]
    by (simp add: failing_env_def demo_env_def demo_world_def executing_def repr_body_def
        escape_char_def Let_def)
  then show ?thesis
    by (simp add: run_tasks_def run_task_def py_find_def Let_def raised_def final_def
        demo_world_def)
qed

section \<open>Resolving the checkout target\<close>

text \<open>
  With neither pin set, the target is the \<open>hexsha\<close> of the submodule just created.
\<close>

lemma checkout_unpinned:
  assumes "\<not> truthy (tag m)" and "\<not> truthy (hexsha m)"
  shows "checkout e m s =
           create_submodule e (name m) (modules_dir @ ''/'' @ name m) (repository m) (branch m)
             (s\<lparr>stdout := stdout s @ [''Cloning: '' @ repository m]\<rparr>)"
  using assms
  by (simp add: checkout_def print_def seq_def split: outcome.splits)

text \<open>
  Claim C1. For a module pinned by \<open>tag\<close> or by \<open>hexsha\<close> the script does not check the
  pin out: once the submodule is created, building the checkout command loads the
  unbound name \<open>tag\<close> (or \<open>hexsha\<close>) and raises \<open>NameError\<close>. No checkout runs, nothing
  is copied, and no \<open>Cloned:\<close> line is printed.
\<close>

theorem C1_pinned_checkout_raises_NameError:
  assumes "truthy (tag m) \<or> truthy (hexsha m)"
      and "create_submodule e (name m) (modules_dir @ ''/'' @ name m) (repository m) (branch m)
             (s\<lparr>stdout := stdout s @ [''Cloning: '' @ repository m]\<rparr>) = Ok h s1"
  shows "checkout e m s = Abort NameError s1
         \<and> fetch_module e cfg m ignore_list s = Abort NameError s1"
  using assms
  by (auto simp: fetch_module_def checkout_def print_def free_variable_def)

theorem C1_witness:
  "raised (checkout demo_env
             \<lparr>name = ''lib'', repository = ''https://x/lib.git'', path = [], branch = ''main'',
              hexsha = None, tag = Some ''v1'', isfile = False\<rparr> demo_world) = Some NameError
   \<and> raised (run_task demo_env
               \<lparr>modules = Some [(''lib'', lib_config\<lparr>cfg_tag := Some ''v1''\<rparr>)],
                gitignore = False\<rparr> ''modules'' demo_world) = Some NameError
   \<and> raised (run_task demo_env
               \<lparr>modules = Some [(''lib'', lib_config\<lparr>cfg_hexsha := Some ''0a1b2c''\<rparr>)],
                gitignore = False\<rparr> ''modules'' demo_world) = Some NameError
   \<and> stdout (final (run_task demo_env
               \<lparr>modules = Some [(''lib'', lib_config\<lparr>cfg_tag := Some ''v1''\<rparr>)],
                gitignore = False\<rparr> ''modules'' demo_world)) = [''Cloning: https://x/lib.git'']
   \<and> fs (final (run_task demo_env
               \<lparr>modules = Some [(''lib'', lib_config\<lparr>cfg_tag := Some ''v1''\<rparr>)],
                gitignore = False\<rparr> ''modules'' demo_world)) [''w'', ''lib''] = None"
proof -
  let ?m = "\<lparr>name = ''lib'', repository = ''https://x/lib.git'', path = [], branch = ''main'',
              hexsha = None, tag = Some ''v1'', isfile = False\<rparr>"
  obtain h s1 where
    h: "create_submodule demo_env (name ?m) (modules_dir @ ''/'' @ name ?m) (repository ?m)
          (branch ?m) (demo_world\<lparr>stdout := stdout demo_world @ [''Cloning: '' @ repository ?m]\<rparr>)
        = Ok h s1"
    by (simp add: demo_env_def)
  have "checkout demo_env ?m demo_world = Abort NameError s1"
    using C1_pinned_checkout_raises_NameError [of ?m demo_env demo_world h s1] h by simp
  then have a: "raised (checkout demo_env ?m demo_world) = Some NameError"
    by (simp add: raised_def)
  have b: "raised (run_task demo_env
               \<lparr>modules = Some [(''lib'', lib_config\<lparr>cfg_tag := Some ''v1''\<rparr>)],
                gitignore = False\<rparr> ''modules'' demo_world) = Some NameError"
    by code_simp
  have c: "raised (run_task demo_env
               \<lparr>modules = Some [(''lib'', lib_config\<lparr>cfg_hexsha := Some ''0a1b2c''\<rparr>)],
                gitignore = False\<rparr> ''modules'' demo_world) = Some NameError"
    by code_simp
  have d: "stdout (final (run_task demo_env
               \<lparr>modules = Some [(''lib'', lib_config\<lparr>cfg_tag := Some ''v1''\<rparr>)],
                gitignore = False\<rparr> ''modules'' demo_world)) = [''Cloning: https://x/lib.git'']"
    by code_simp
  have f: "fs (final (run_task demo_env
               \<lparr>modules = Some [(''lib'', lib_config\<lparr>cfg_tag := Some ''v1''\<rparr>)],
                gitignore = False\<rparr> ''modules'' demo_world)) [''w'', ''lib''] = None"
    by code_simp
  show ?thesis using a b c d f by simp
qed

section \<open>Modules pinned twice\<close>

lemma format_both:
  "py_format ''%s: Cannot be both tag & hexsha.'' [PStr n]
     = Inr (n @ '': Cannot be both tag & hexsha.'')"
  by simp

text \<open>
  Claim C2. A module whose \<open>tag\<close> and \<open>hexsha\<close> are both set (both true in Python's
  sense, as the script tests them) is skipped: when the pass reaches it, all that
  happens is that the diagnostic is printed, and the pass goes on with the remaining
  modules from that state. No collaborator is called for it, so there is no clone, no
  checkout and no copy. When the task names another module, it is skipped silently.
\<close>

theorem C2_both_pins_skipped:
  assumes "cfg_repository mc = Some r"
      and "truthy (cfg_tag mc)" and "truthy (cfg_hexsha mc)"
  shows "fetch_loop e cfg specific_module ((nm, mc) # rest) ignore_list s =
           fetch_loop e cfg specific_module rest ignore_list
             (if truthy specific_module \<and> specific_module \<noteq> Some nm then s
              else s\<lparr>stdout := stdout s @ [nm @ '': Cannot be both tag & hexsha.'']\<rparr>)"
  using assms
  unfolding fetch_loop.simps from_config_def format_both
  by (simp add: raise_format_def print_def)

theorem C2_witness:
  "fetch_loop demo_env demo_config None
     [(''bad'', lib_config\<lparr>cfg_tag := Some ''v1'', cfg_hexsha := Some ''0a1b2c''\<rparr>),
      (''lib'', lib_config)] [] demo_world
   = fetch_loop demo_env demo_config None [(''lib'', lib_config)] []
       (demo_world\<lparr>stdout := [''bad: Cannot be both tag & hexsha.'']\<rparr>)
   \<and> returned (run_task demo_env
        \<lparr>modules = Some [(''bad'', lib_config\<lparr>cfg_tag := Some ''v1'', cfg_hexsha := Some ''0a1b2c''\<rparr>),
                          (''lib'', lib_config)],
         gitignore = False\<rparr> ''modules'' demo_world)
   \<and> stdout (final (run_task demo_env
        \<lparr>modules = Some [(''bad'', lib_config\<lparr>cfg_tag := Some ''v1'', cfg_hexsha := Some ''0a1b2c''\<rparr>),
                          (''lib'', lib_config)],
         gitignore = False\<rparr> ''modules'' demo_world))
       = [''bad: Cannot be both tag & hexsha.'', ''Cloning: https://x/lib.git'',
          ''Executing '' @ [CHR 0x27] @ ''rm .gitmodules'' @ [CHR 0x27] @ '' in /w...'',
          ''Got stdout:'' @ [CHR 0x0A] @ ''b'' @ [CHR 0x27, CHR 0x27],
          ''Executing '' @ [CHR 0x27] @ ''git rm --quiet --cached .gitmodules'' @ [CHR 0x27]
            @ '' in /w...'',
          ''Got stdout:'' @ [CHR 0x0A] @ ''b'' @ [CHR 0x27, CHR 0x27],
          ''Cloned: lib (0a1b2c)'']"
proof -
  let ?mc = "lib_config\<lparr>cfg_tag := Some ''v1'', cfg_hexsha := Some ''0a1b2c''\<rparr>"
  have a: "cfg_repository ?mc = Some ''https://x/lib.git''"
    and b: "truthy (cfg_tag ?mc)" and c: "truthy (cfg_hexsha ?mc)"
    by (simp_all add: lib_config_def)
  have t: "fetch_loop demo_env demo_config None [(''bad'', ?mc), (''lib'', lib_config)] []
             demo_world
           = fetch_loop demo_env demo_config None [(''lib'', lib_config)] []
               (demo_world\<lparr>stdout := [''bad: Cannot be both tag & hexsha.'']\<rparr>)"
    using C2_both_pins_skipped [OF a b c, of demo_env demo_config None "''bad''"
        "[(''lib'', lib_config)]" "[]" demo_world]
    by (simp add: demo_world_def)
  have u: "returned (run_task demo_env
        \<lparr>modules = Some [(''bad'', ?mc), (''lib'', lib_config)],
         gitignore = False\<rparr> ''modules'' demo_world)"
    by code_simp
  have v: "stdout (final (run_task demo_env
        \<lparr>modules = Some [(''bad'', ?mc), (''lib'', lib_config)],
         gitignore = False\<rparr> ''modules'' demo_world))
       = [''bad: Cannot be both tag & hexsha.'', ''Cloning: https://x/lib.git'',
          ''Executing '' @ [CHR 0x27] @ ''rm .gitmodules'' @ [CHR 0x27] @ '' in /w...'',
          ''Got stdout:'' @ [CHR 0x0A] @ ''b'' @ [CHR 0x27, CHR 0x27],
          ''Executing '' @ [CHR 0x27] @ ''git rm --quiet --cached .gitmodules'' @ [CHR 0x27]
            @ '' in /w...'',
          ''Got stdout:'' @ [CHR 0x0A] @ ''b'' @ [CHR 0x27, CHR 0x27],
          ''Cloned: lib (0a1b2c)'']"
    by code_simp
  show ?thesis using t u v by blast
qed

section \<open>Statistics of a profile run\<close>

lemma dependencies_loop_stats:
  "dependencies_loop e ds st s = Ok st' s' \<Longrightarrow>
     n_dependencies st' = n_dependencies st + int (length ds) \<and> n_tasks st' = n_tasks st"
proof (induction ds arbitrary: st s)
  case Nil
  then show ?case by simp
next
  case (Cons d ds)
  from Cons.prems obtain r s1 where
    "dependencies_loop e ds (st\<lparr>n_dependencies := n_dependencies st + 1\<rparr>) s1 = Ok st' s'"
    by (auto simp: seq_eq_Ok)
  from Cons.IH [OF this] show ?case by simp
qed

lemma tasks_loop_stats:
  "tasks_loop e cfg ts st s = Ok st' s' \<Longrightarrow>
     n_tasks st' = n_tasks st + int (length ts) \<and> n_dependencies st' = n_dependencies st"
proof (induction ts arbitrary: st s)
  case Nil
  then show ?case by simp
next
  case (Cons t ts)
  from Cons.prems obtain s1 where
    "tasks_loop e cfg ts (st\<lparr>n_tasks := n_tasks st + 1\<rparr>) s1 = Ok st' s'"
    by (auto simp: seq_eq_Ok Let_def)
  from Cons.IH [OF this] show ?case by simp
qed

text \<open>
  Claim C3. Whenever the run of a profile returns statistics, they count every task
  string and every dependency entry, whatever the entries did: \<open>tasks\<close> is the length of
  the task list and \<open>dependencies\<close> the number of entries of the mapping (0 when
  \<open>dependencies\<close> is absent or no mapping). With an empty task list the last line printed
  is \<open>No tasks found.\<close>. A run that a fatal error ends returns no statistics.
\<close>

theorem C3_counters_exact:
  assumes "run_tasks e cfg prof s = Ok st s'"
  shows "n_tasks st = int (length (tasks prof))
         \<and> n_dependencies st =
             (case dependencies prof of DepsMapping ds \<Rightarrow> int (length ds) | _ \<Rightarrow> 0)
         \<and> (tasks prof = [] \<longrightarrow> stdout s' \<noteq> [] \<and> last (stdout s') = ''No tasks found.'')"
proof -
  from assms obtain st0 s0 where
    deps: "(case dependencies prof of
              DepsMapping ds \<Rightarrow> dependencies_loop e ds \<lparr>n_tasks = 0, n_dependencies = 0\<rparr> s
            | _ \<Rightarrow> Ok \<lparr>n_tasks = 0, n_dependencies = 0\<rparr> s) = Ok st0 s0"
    and rest: "(if tasks prof = [] then seq (print ''No tasks found.'' s0) (\<lambda>_ s. Ok st0 s)
                else tasks_loop e cfg (tasks prof) st0 s0) = Ok st s'"
    by (auto simp: run_tasks_def seq_eq_Ok)
  have d: "n_dependencies st0 =
             (case dependencies prof of DepsMapping ds \<Rightarrow> int (length ds) | _ \<Rightarrow> 0)
           \<and> n_tasks st0 = 0"
    using deps by (auto split: deps.splits dest: dependencies_loop_stats)
  show ?thesis
  proof (cases "tasks prof = []")
    case True
    with rest have "st = st0" and "s' = s0\<lparr>stdout := stdout s0 @ [''No tasks found.'']\<rparr>"
      by (auto simp: print_def)
    with d True show ?thesis by simp
  next
    case False
    with rest have "tasks_loop e cfg (tasks prof) st0 s0 = Ok st s'" by simp
    from tasks_loop_stats [OF this] d False show ?thesis by simp
  qed
qed

theorem C3_witness:
  "run_tasks demo_env demo_config
     \<lparr>dependencies = DepsMapping [(''other'', ''x''), (''quack'', ''sub/quack:build'')],
      tasks = [''noop'', ''-'', ''cmd:true'']\<rparr> demo_world
   = Ok \<lparr>n_tasks = 3, n_dependencies = 2\<rparr>
       (final (run_tasks demo_env demo_config
     \<lparr>dependencies = DepsMapping [(''other'', ''x''), (''quack'', ''sub/quack:build'')],
      tasks = [''noop'', ''-'', ''cmd:true'']\<rparr> demo_world))
   \<and> run_tasks demo_env demo_config \<lparr>dependencies = DepsMapping [(''other'', ''x'')], tasks = []\<rparr>
       demo_world
     = Ok \<lparr>n_tasks = 0, n_dependencies = 1\<rparr> (demo_world\<lparr>stdout := [''No tasks found.'']\<rparr>)"
proof -
  let ?p = "\<lparr>dependencies = DepsMapping [(''other'', ''x''), (''quack'', ''sub/quack:build'')],
      tasks = [''noop'', ''-'', ''cmd:true'']\<rparr>"
  have "returned (run_tasks demo_env demo_config ?p demo_world)"
    by code_simp
  then obtain st s' where r: "run_tasks demo_env demo_config ?p demo_world = Ok st s'"
    by (auto simp: returned_def split: outcome.splits)
  from C3_counters_exact [OF r] have "st = \<lparr>n_tasks = 3, n_dependencies = 2\<rparr>"
    by simp
  with r have a: "run_tasks demo_env demo_config ?p demo_world
     = Ok \<lparr>n_tasks = 3, n_dependencies = 2\<rparr> (final (run_tasks demo_env demo_config ?p demo_world))"
    by (simp add: final_def)
  have b: "run_tasks demo_env demo_config
       \<lparr>dependencies = DepsMapping [(''other'', ''x'')], tasks = []\<rparr> demo_world
     = Ok \<lparr>n_tasks = 0, n_dependencies = 1\<rparr> (demo_world\<lparr>stdout := [''No tasks found.'']\<rparr>)"
    by (simp add: run_tasks_def run_nested_quack_def print_def demo_world_def)
  show ?thesis using a b by blast
qed

section \<open>Removing a directory\<close>

lemma rmtree_Ok:
  "rmtree cwd p s = Ok u s' \<Longrightarrow>
     lookup cwd s p = Some Dir \<and> resolve cwd p \<noteq> [] \<and> \<not> ends_in_dot p
     \<and> s' = s\<lparr>fs := (\<lambda>q. if prefix (resolve cwd p) q then None else fs s q)\<rparr>"
  by (auto simp: rmtree_def split: option.splits node.splits if_splits)

lemma remove_dir_Ok:
  "remove_dir e p s = Ok b s' \<Longrightarrow>
     (if path_exists (getcwd e) s p
      then b \<and> path_isdir (getcwd e) s p \<and> resolve (getcwd e) p \<noteq> []
           \<and> s' = s\<lparr>fs := (\<lambda>q. if prefix (resolve (getcwd e) p) q then None else fs s q)\<rparr>
      else \<not> b \<and> s' = s)"
  by (auto simp: remove_dir_def seq_eq_Ok path_isdir_def dest!: rmtree_Ok split: if_splits)

lemma remove_dir_gone:
  assumes "remove_dir e p s = Ok b s'"
  shows "\<not> path_exists (getcwd e) s' p"
proof (cases "path_exists (getcwd e) s p")
  case True
  with remove_dir_Ok [OF assms] have r: "resolve (getcwd e) p \<noteq> []"
    and s': "s' = s\<lparr>fs := (\<lambda>q. if prefix (resolve (getcwd e) p) q then None else fs s q)\<rparr>"
    by simp_all
  show ?thesis
    by (simp add: s' path_exists_def lookup_def node_at_def r)
next
  case False
  with remove_dir_Ok [OF assms] show ?thesis by simp
qed

lemma remove_dir_file:
  "path_isfile (getcwd e) s p \<Longrightarrow> remove_dir e p s = Abort NotADirectoryError s"
  by (auto simp: remove_dir_def path_isfile_def path_exists_def rmtree_def
      split: option.splits node.splits)

section \<open>Nested invocations\<close>

lemma nested_sub_build:
  "nested_module e ''sub/quack:build'' = ''sub''"
  "nested_command ''sub/quack:build'' = [''quack'', ''-p'', ''build'', ''-y'', ''quack'']"
  by (simp_all add: nested_module_def nested_command_def py_find_def py_rfind_def py_slice_def
      py_clip_def Let_def)

text \<open>
  Claim C4 as stated fails on the reference \<open>sub/quack:build\<close>: the argument list
  carries \<open>-y quack\<close>, so the configuration file name is not left at its default.
\<close>

theorem C4_counterexample:
  "nested_command ''sub/quack:build'' = [''quack'', ''-p'', ''build'', ''-y'', ''quack'']
   \<and> nested_command ''sub/quack:build'' \<noteq> [''quack'', ''-p'', ''build'']"
  by (simp add: nested_sub_build)

text \<open>
  Claim C4, amended. For the dependency entry \<open>("quack", "sub/quack:build")\<close> the
  dispatcher prints \<open>Quack..sub\<close>, initialises version control in \<open>sub\<close>, makes sure
  \<open>sub\<close> exists and runs the command \<open>quack -p build -y quack\<close> with working directory
  \<open>sub\<close>: the profile argument is \<open>build\<close> and the configuration file name is passed
  as \<open>quack\<close>, the text between the last \<open>/\<close> and the first \<open>:\<close>. Whenever the
  dispatcher returns, \<open>sub/.git\<close> does not exist.
\<close>

theorem C4_nested_invocation:
  "nested_module e ''sub/quack:build'' = ''sub''
   \<and> py_join '' '' (nested_command ''sub/quack:build'') = ''quack -p build -y quack''
   \<and> run_nested_quack e (''quack'', ''sub/quack:build'') s =
       seq (git_init e ''sub'' (s\<lparr>stdout := stdout s @ [''Quack..sub'']\<rparr>))
         (\<lambda>_ s. seq (create_dir e ''sub'' s)
         (\<lambda>_ s. seq (nice_call e ''quack -p build -y quack'' (Some ''sub'') s)
         (\<lambda>_ s. seq (remove_dir e ''sub/.git'' s)
         (\<lambda>_ s. Ok (Some True) s))))
   \<and> (\<forall>r s'. run_nested_quack e (''quack'', ''sub/quack:build'') s = Ok r s'
         \<longrightarrow> r = Some True \<and> \<not> path_exists (getcwd e) s' ''sub/.git'')"
proof -
  have eq: "run_nested_quack e (''quack'', ''sub/quack:build'') s =
       seq (git_init e ''sub'' (s\<lparr>stdout := stdout s @ [''Quack..sub'']\<rparr>))
         (\<lambda>_ s. seq (create_dir e ''sub'' s)
         (\<lambda>_ s. seq (nice_call e ''quack -p build -y quack'' (Some ''sub'') s)
         (\<lambda>_ s. seq (remove_dir e ''sub/.git'' s)
         (\<lambda>_ s. Ok (Some True) s))))"
    by (simp add: run_nested_quack_def nested_sub_build print_def Let_def)
  have post: "r = Some True \<and> \<not> path_exists (getcwd e) s' ''sub/.git''"
    if "run_nested_quack e (''quack'', ''sub/quack:build'') s = Ok r s'" for r s'
  proof -
    from that [unfolded eq] obtain b s3 where "remove_dir e ''sub/.git'' s3 = Ok b s'"
      and "r = Some True"
      by (auto simp: seq_eq_Ok)
    then show ?thesis by (simp add: remove_dir_gone)
  qed
  show ?thesis
    using eq post by (simp add: nested_sub_build)
qed

theorem C4_witness:
  "returned (run_nested_quack demo_env (''quack'', ''sub/quack:build'') demo_world)
   \<and> \<not> path_exists ''/w''
        (final (run_nested_quack demo_env (''quack'', ''sub/quack:build'') demo_world)) ''sub/.git''
   \<and> path_isdir ''/w''
        (final (run_nested_quack demo_env (''quack'', ''sub/quack:build'') demo_world)) ''sub''
   \<and> stdout (final (run_nested_quack demo_env (''quack'', ''sub/quack:build'') demo_world))
       = [''Quack..sub'',
          ''Executing '' @ [CHR 0x27] @ ''quack -p build -y quack'' @ [CHR 0x27] @ '' in sub...'',
          ''Got stdout:'' @ [CHR 0x0A] @ ''b'' @ [CHR 0x27, CHR 0x27]]"
proof -
  let ?r = "run_nested_quack demo_env (''quack'', ''sub/quack:build'') demo_world"
  have a: "returned ?r" by code_simp
  then obtain r s' where r: "?r = Ok r s'"
    by (auto simp: returned_def split: outcome.splits)
  with C4_nested_invocation [of demo_env demo_world]
  have "\<not> path_exists (getcwd demo_env) s' ''sub/.git''" by simp
  with r have b: "\<not> path_exists ''/w'' (final ?r) ''sub/.git''"
    by (simp add: final_def demo_env_def)
  have c: "path_isdir ''/w'' (final ?r) ''sub''" by code_simp
  have d: "stdout (final ?r)
       = [''Quack..sub'',
          ''Executing '' @ [CHR 0x27] @ ''quack -p build -y quack'' @ [CHR 0x27] @ '' in sub...'',
          ''Got stdout:'' @ [CHR 0x0A] @ ''b'' @ [CHR 0x27, CHR 0x27]]"
    by code_simp
  show ?thesis using a b c d by blast
qed

section \<open>Cleaning a module vendored as a single file\<close>

text \<open>
  Vendoring with \<open>isfile\<close> leaves a regular file named after the module whenever it
  copies.
\<close>

lemma copyfile_Ok_isfile:
  "copyfile cwd src dst s = Ok u s' \<Longrightarrow> path_isfile cwd s' dst"
  by (auto simp: copyfile_def open_write_error_def path_isfile_def lookup_def node_at_def Let_def
      split: option.splits node.splits if_splits)

lemma materialize_single_file:
  assumes "isfile m" and "materialize e m s = Ok u s'"
      and "path m = [] \<or> path_exists (getcwd e) s (from_path m)"
  shows "path_isfile (getcwd e) s' (name m)"
  using assms
  by (auto simp: materialize_def Let_def seq_eq_Ok dest: copyfile_Ok_isfile split: if_splits)

lemma clean_loop_named_file:
  assumes "path_isfile (getcwd e) s nm" and "nm \<in> fst ` set module_list"
  shows "clean_loop e (Some nm) module_list s = Abort NotADirectoryError s"
  using assms(2)
proof (induction module_list)
  case Nil
  then show ?case by simp
next
  case (Cons x xs)
  obtain k mc where x: "x = (k, mc)" by (cases x)
  from assms(1) have ne: "nm \<noteq> []"
    by (auto simp: path_isfile_def lookup_def)
  show ?case
  proof (cases "k = nm")
    case True
    with x ne assms(1) show ?thesis by (simp add: remove_dir_file)
  next
    case False
    with Cons x ne show ?thesis by auto
  qed
qed

text \<open>
  Claim C10. Cleaning does not remove a module that was vendored as a single file:
  \<open>_clean_modules\<close> calls \<open>_remove_dir\<close> on the module name, whose \<open>shutil.rmtree\<close> raises
  \<open>NotADirectoryError\<close> when the name is a regular file, and the file system is left as
  it was. This holds when the clean loop reaches the module, and for the task that
  names the module wherever it stands in the configuration.
\<close>

theorem C10_clean_keeps_single_file:
  assumes "path_isfile (getcwd e) s nm"
  shows "(\<not> (truthy specific_module \<and> specific_module \<noteq> Some nm)
            \<longrightarrow> clean_loop e specific_module ((nm, mc) # rest) s = Abort NotADirectoryError s)
         \<and> (modules cfg = Some module_list \<and> nm \<in> fst ` set module_list
            \<longrightarrow> clean_modules e cfg (Some nm) s = Abort NotADirectoryError s)
         \<and> (modules cfg = Some module_list \<and> nm \<in> fst ` set module_list
              \<and> py_remove_all ''modules:'' nm = nm
            \<longrightarrow> run_task e cfg (''-modules:'' @ nm) s = Abort NotADirectoryError s)"
proof (intro conjI impI)
  assume "\<not> (truthy specific_module \<and> specific_module \<noteq> Some nm)"
  with assms show "clean_loop e specific_module ((nm, mc) # rest) s = Abort NotADirectoryError s"
    by (auto simp: remove_dir_file)
next
  assume "modules cfg = Some module_list \<and> nm \<in> fst ` set module_list"
  then show "clean_modules e cfg (Some nm) s = Abort NotADirectoryError s"
    using assms by (simp add: clean_modules_def clean_loop_named_file)
next
  assume a: "modules cfg = Some module_list \<and> nm \<in> fst ` set module_list
              \<and> py_remove_all ''modules:'' nm = nm"
  then have "run_task e cfg (''-modules:'' @ nm) s = clean_modules e cfg (Some nm) s"
    by (simp add: run_task_def py_find_def Let_def)
  with a assms show "run_task e cfg (''-modules:'' @ nm) s = Abort NotADirectoryError s"
    by (simp add: clean_modules_def clean_loop_named_file)
qed

theorem C10_witness:
  "returned (run_task demo_env readme_config ''modules:readme'' demo_world)
   \<and> fs (final (run_task demo_env readme_config ''modules:readme'' demo_world)) [''w'', ''readme'']
       = Some (File ''hello'')
   \<and> run_task demo_env readme_config ''-modules:readme''
       (final (run_task demo_env readme_config ''modules:readme'' demo_world))
     = Abort NotADirectoryError
         (final (run_task demo_env readme_config ''modules:readme'' demo_world))"
proof -
  let ?s = "final (run_task demo_env readme_config ''modules:readme'' demo_world)"
  have a: "returned (run_task demo_env readme_config ''modules:readme'' demo_world)"
    by code_simp
  have b: "fs ?s [''w'', ''readme''] = Some (File ''hello'')"
    by code_simp
  have f: "path_isfile (getcwd demo_env) ?s ''readme''"
    by code_simp
  have m: "modules readme_config = Some [(''lib'', lib_config),
                      (''readme'', lib_config\<lparr>cfg_path := Some ''README'',
                                               cfg_isfile := Some True\<rparr>)]
           \<and> ''readme'' \<in> fst ` set [(''lib'', lib_config),
                      (''readme'', lib_config\<lparr>cfg_path := Some ''README'',
                                               cfg_isfile := Some True\<rparr>)]
           \<and> py_remove_all ''modules:'' ''readme'' = ''readme''"
    by (simp add: readme_config_def)
  from C10_clean_keeps_single_file [OF f, of _ _ _ readme_config] m
  have c: "run_task demo_env readme_config (''-modules:'' @ ''readme'') ?s
             = Abort NotADirectoryError ?s"
    by blast
  show ?thesis using a b c by simp
qed

section \<open>Fetching, then cleaning\<close>

lemma remove_dir_dir:
  assumes "path_isdir (getcwd e) s p" and "resolve (getcwd e) p \<noteq> []"
      and "\<not> ends_in_dot p"
  shows "remove_dir e p s =
           Ok True (s\<lparr>fs := (\<lambda>q. if prefix (resolve (getcwd e) p) q then None else fs s q)\<rparr>)"
  using assms
  by (simp add: remove_dir_def path_isdir_def path_exists_def rmtree_def)

lemma remove_dir_absent:
  "\<not> path_exists (getcwd e) s p \<Longrightarrow> remove_dir e p s = Ok False s"
  by (simp add: remove_dir_def)

lemma path_exists_print [simp]:
  "path_exists cwd (s\<lparr>stdout := out\<rparr>) p = path_exists cwd s p"
  by (simp add: path_exists_def lookup_def)

lemma clean_loop_absent:
  assumes "\<not> path_exists (getcwd e) s X" and "X \<noteq> []"
  shows "clean_loop e (Some X) module_list s = Ok () s"
  using assms
  by (induction module_list) (auto simp: remove_dir_absent)

lemma clean_loop_named_dir:
  assumes "path_isdir (getcwd e) s X" and "resolve (getcwd e) X \<noteq> []"
      and "\<not> ends_in_dot X"
      and "X \<in> fst ` set module_list"
  shows "clean_loop e (Some X) module_list s =
           Ok () (s\<lparr>fs := (\<lambda>q. if prefix (resolve (getcwd e) X) q then None else fs s q),
                    stdout := stdout s @ [''Cleaned '' @ X]\<rparr>)"
  using assms(4)
proof (induction module_list)
  case Nil
  then show ?case by simp
next
  case (Cons x xs)
  obtain k mc where x: "x = (k, mc)" by (cases x)
  from assms(1) have ne: "X \<noteq> []"
    by (auto simp: path_isdir_def lookup_def)
  show ?case
  proof (cases "k = X")
    case True
    let ?s' = "s\<lparr>fs := (\<lambda>q. if prefix (resolve (getcwd e) X) q then None else fs s q)\<rparr>"
    have gone: "\<not> path_exists (getcwd e) ?s' X"
      using remove_dir_gone [of e X s True ?s'] remove_dir_dir [OF assms(1,2,3)] by simp
    then have "clean_loop e (Some X) xs (?s'\<lparr>stdout := stdout s @ [''Cleaned '' @ X]\<rparr>)
                 = Ok () (?s'\<lparr>stdout := stdout s @ [''Cleaned '' @ X]\<rparr>)"
      using ne by (simp add: clean_loop_absent)
    with True x show ?thesis
      by (simp add: remove_dir_dir [OF assms(1,2,3)] print_def)
  next
    case False
    with Cons x ne show ?thesis by auto
  qed
qed

text \<open>
  Claim C7 as stated fails. For the module \<open>a/b\<close> the fetch creates the directory \<open>a\<close>
  on the way to its destination, and the clean removes \<open>a/b\<close> only: \<open>a\<close>, which was not
  there before, is left. For the module \<open>lib/.\<close> the clean empties \<open>lib\<close> and raises
  \<open>OSError\<close>, so the directory is still there and the run is over.
\<close>

theorem C7_counterexample:
  "returned (run_tasks demo_env nested_config
       \<lparr>dependencies = NoDeps, tasks = [''modules:a/b'', ''-modules:a/b'']\<rparr> demo_world)
   \<and> \<not> path_exists ''/w'' demo_world ''a''
   \<and> path_isdir ''/w'' (final (run_task demo_env nested_config ''modules:a/b'' demo_world)) ''a/b''
   \<and> path_isdir ''/w'' (final (run_tasks demo_env nested_config
       \<lparr>dependencies = NoDeps, tasks = [''modules:a/b'', ''-modules:a/b'']\<rparr> demo_world)) ''a''
   \<and> returned (run_task demo_env dot_config ''modules:lib/.'' demo_world)
   \<and> raised (run_tasks demo_env dot_config
       \<lparr>dependencies = NoDeps, tasks = [''modules:lib/.'', ''-modules:lib/.'']\<rparr> demo_world)
       = Some OSError
   \<and> path_isdir ''/w'' (final (run_tasks demo_env dot_config
       \<lparr>dependencies = NoDeps, tasks = [''modules:lib/.'', ''-modules:lib/.'']\<rparr> demo_world)) ''lib''"
proof -
  have a: "returned (run_tasks demo_env nested_config
       \<lparr>dependencies = NoDeps, tasks = [''modules:a/b'', ''-modules:a/b'']\<rparr> demo_world)"
    by code_simp
  have b: "\<not> path_exists ''/w'' demo_world ''a''"
    by code_simp
  have c: "path_isdir ''/w''
             (final (run_task demo_env nested_config ''modules:a/b'' demo_world)) ''a/b''"
    by code_simp
  have d: "path_isdir ''/w'' (final (run_tasks demo_env nested_config
       \<lparr>dependencies = NoDeps, tasks = [''modules:a/b'', ''-modules:a/b'']\<rparr> demo_world)) ''a''"
    by code_simp
  have f: "returned (run_task demo_env dot_config ''modules:lib/.'' demo_world)"
    by code_simp
  have g: "raised (run_tasks demo_env dot_config
       \<lparr>dependencies = NoDeps, tasks = [''modules:lib/.'', ''-modules:lib/.'']\<rparr> demo_world)
       = Some OSError"
    by code_simp
  have h: "path_isdir ''/w'' (final (run_tasks demo_env dot_config
       \<lparr>dependencies = NoDeps, tasks = [''modules:lib/.'', ''-modules:lib/.'']\<rparr> demo_world)) ''lib''"
    by code_simp
  from a b c d f g h show ?thesis by blast
qed

text \<open>
  Claim C7, amended. Let the task \<open>modules:X\<close> have vendored module \<open>X\<close> by the
  directory copy: it returned, and \<open>X\<close> is a directory afterwards. Let \<open>X\<close> be a module of
  the configuration whose name does not end in a \<open>.\<close> or \<open>..\<close> component and has no
  occurrence of the text \<open>modules:\<close>, which the interpreter deletes from the task
  string. Then the two tasks \<open>modules:X\<close> and \<open>-modules:X\<close> in a row return, both
  counted, and leave no \<open>X\<close>: the second deletes \<open>X\<close> with everything below it and
  prints \<open>Cleaned X\<close>. Every other path, the directories above \<open>X\<close> among them, is as
  the fetch left it.
\<close>

theorem C7_clean_removes_destination:
  assumes "run_task e cfg (''modules:'' @ X) s = Ok u s1"
      and "path_isdir (getcwd e) s1 X" and "resolve (getcwd e) X \<noteq> []"
      and "\<not> ends_in_dot X"
      and "modules cfg = Some module_list" and "X \<in> fst ` set module_list"
      and "py_remove_all ''modules:'' X = X"
  shows "run_tasks e cfg \<lparr>dependencies = NoDeps, tasks = [''modules:'' @ X, ''-modules:'' @ X]\<rparr> s
           = Ok \<lparr>n_tasks = 2, n_dependencies = 0\<rparr>
               (s1\<lparr>fs := (\<lambda>q. if prefix (resolve (getcwd e) X) q then None else fs s1 q),
                   stdout := stdout s1 @ [''Cleaned '' @ X]\<rparr>)
         \<and> \<not> path_exists (getcwd e)
               (s1\<lparr>fs := (\<lambda>q. if prefix (resolve (getcwd e) X) q then None else fs s1 q),
                   stdout := stdout s1 @ [''Cleaned '' @ X]\<rparr>) X
         \<and> (\<forall>q. strict_prefix q (resolve (getcwd e) X) \<longrightarrow>
               fs (s1\<lparr>fs := (\<lambda>q. if prefix (resolve (getcwd e) X) q then None else fs s1 q),
                       stdout := stdout s1 @ [''Cleaned '' @ X]\<rparr>) q = fs s1 q)"
proof -
  let ?s2 = "s1\<lparr>fs := (\<lambda>q. if prefix (resolve (getcwd e) X) q then None else fs s1 q),
                   stdout := stdout s1 @ [''Cleaned '' @ X]\<rparr>"
  have "run_task e cfg (''-modules:'' @ X) s1 = clean_modules e cfg (Some X) s1"
    using assms(7) by (simp add: run_task_def py_find_def Let_def)
  also have "\<dots> = Ok () ?s2"
    using assms(5) by (simp add: clean_modules_def clean_loop_named_dir [OF assms(2,3,4,6)])
  finally have clean: "run_task e cfg (''-modules:'' @ X) s1 = Ok () ?s2" .
  have run: "run_tasks e cfg
               \<lparr>dependencies = NoDeps, tasks = [''modules:'' @ X, ''-modules:'' @ X]\<rparr> s
             = Ok \<lparr>n_tasks = 2, n_dependencies = 0\<rparr> ?s2"
    using assms(1) clean by (simp add: run_tasks_def Let_def)
  have gone: "\<not> path_exists (getcwd e) ?s2 X"
    using assms(3) by (simp add: path_exists_def lookup_def node_at_def)
  have above: "fs ?s2 q = fs s1 q" if "strict_prefix q (resolve (getcwd e) X)" for q
    using that by (auto simp: strict_prefix_def)
  from run gone above show ?thesis by simp
qed

theorem C7_witness:
  "returned (run_task demo_env nested_config ''modules:a/b'' demo_world)
   \<and> path_isdir ''/w'' (final (run_task demo_env nested_config ''modules:a/b'' demo_world)) ''a/b''
   \<and> fs (final (run_task demo_env nested_config ''modules:a/b'' demo_world))
        [''w'', ''a'', ''b'', ''src'', ''a.py''] = Some (File ''pass'')
   \<and> returned (run_tasks demo_env nested_config
        \<lparr>dependencies = NoDeps, tasks = [''modules:a/b'', ''-modules:a/b'']\<rparr> demo_world)
   \<and> \<not> path_exists ''/w'' (final (run_tasks demo_env nested_config
        \<lparr>dependencies = NoDeps, tasks = [''modules:a/b'', ''-modules:a/b'']\<rparr> demo_world)) ''a/b''
   \<and> fs (final (run_tasks demo_env nested_config
        \<lparr>dependencies = NoDeps, tasks = [''modules:a/b'', ''-modules:a/b'']\<rparr> demo_world))
        [''w'', ''a'', ''b'', ''src'', ''a.py''] = None
   \<and> fs (final (run_tasks demo_env nested_config
        \<lparr>dependencies = NoDeps, tasks = [''modules:a/b'', ''-modules:a/b'']\<rparr> demo_world))
        [''w'', ''a''] = Some Dir"
proof -
  let ?f = "run_task demo_env nested_config ''modules:a/b'' demo_world"
  let ?p = "\<lparr>dependencies = NoDeps, tasks = [''modules:a/b'', ''-modules:a/b'']\<rparr>"
  have a: "returned ?f" by code_simp
  then have f: "?f = Ok () (final ?f)"
    by (auto simp: returned_def final_def split: outcome.splits)
  have b: "path_isdir (getcwd demo_env) (final ?f) ''a/b''" by code_simp
  have c: "resolve (getcwd demo_env) ''a/b'' \<noteq> []" by code_simp
  have nd: "\<not> ends_in_dot ''a/b''" by code_simp
  have d: "modules nested_config = Some [(''a/b'', lib_config)]"
    and m: "''a/b'' \<in> fst ` set [(''a/b'', lib_config)]"
    and r: "py_remove_all ''modules:'' ''a/b'' = ''a/b''"
    by (simp_all add: nested_config_def)
  have g: "fs (final ?f) [''w'', ''a'', ''b'', ''src'', ''a.py''] = Some (File ''pass'')"
    by code_simp
  have up: "fs (final ?f) [''w'', ''a''] = Some Dir"
    by code_simp
  have D: "resolve (getcwd demo_env) ''a/b'' = [''w'', ''a'', ''b'']" by code_simp
  from C7_clean_removes_destination [of demo_env nested_config "''a/b''" demo_world "()"
      "final ?f" "[(''a/b'', lib_config)]"] f b c nd d m r
  have t: "run_tasks demo_env nested_config ?p demo_world
           = Ok \<lparr>n_tasks = 2, n_dependencies = 0\<rparr>
               ((final ?f)\<lparr>fs := (\<lambda>q. if prefix (resolve (getcwd demo_env) ''a/b'') q then None
                                       else fs (final ?f) q),
                   stdout := stdout (final ?f) @ [''Cleaned '' @ ''a/b'']\<rparr>)"
    and n: "\<not> path_exists (getcwd demo_env)
               ((final ?f)\<lparr>fs := (\<lambda>q. if prefix (resolve (getcwd demo_env) ''a/b'') q then None
                                       else fs (final ?f) q),
                   stdout := stdout (final ?f) @ [''Cleaned '' @ ''a/b'']\<rparr>) ''a/b''"
    by simp_all
  have cwd: "getcwd demo_env = ''/w''" by (simp add: demo_env_def)
  have h: "returned (run_tasks demo_env nested_config ?p demo_world)"
    by (simp add: t returned_def)
  have i: "\<not> path_exists ''/w'' (final (run_tasks demo_env nested_config ?p demo_world)) ''a/b''"
    using n by (simp add: t final_def cwd)
  have j: "fs (final (run_tasks demo_env nested_config ?p demo_world))
                  [''w'', ''a'', ''b'', ''src'', ''a.py''] = None"
    by (simp add: t final_def D)
  have k: "fs (final (run_tasks demo_env nested_config ?p demo_world)) [''w'', ''a''] = Some Dir"
    using up by (simp add: t final_def D)
  from a b g h i j k show ?thesis by (simp add: cwd)
qed

section \<open>Vendoring twice\<close>

lemma below_print [simp]: "below d (s\<lparr>stdout := out\<rparr>) = below d s"
  by (simp add: below_def)

lemma lookup_print [simp]: "lookup cwd (s\<lparr>stdout := out\<rparr>) p = lookup cwd s p"
  by (simp add: lookup_def)

lemma path_isfile_print [simp]: "path_isfile cwd (s\<lparr>stdout := out\<rparr>) p = path_isfile cwd s p"
  by (simp add: path_isfile_def)

lemma disjoint_not_prefix_append:
  "disjoint_paths d a \<Longrightarrow> \<not> prefix d (a @ r)"
  by (auto simp: disjoint_paths_def prefix_append dest: prefix_order.trans)

lemma disjoint_not_prefix_append':
  "disjoint_paths d a \<Longrightarrow> \<not> prefix a (d @ r)"
  by (auto simp: disjoint_paths_def prefix_append dest: prefix_order.trans)

lemma lookup_below:
  "below a s1 = below a s2 \<Longrightarrow> resolve cwd p = a \<Longrightarrow> lookup cwd s1 p = lookup cwd s2 p"
  by (auto simp: lookup_def node_at_def below_def dest: fun_cong [where x = "[]"])

lemma makedirs_Ok:
  "makedirs cwd p s = Ok u s' \<Longrightarrow>
     resolve cwd p \<noteq> []
     \<and> s' = s\<lparr>fs := (\<lambda>q. if q \<noteq> [] \<and> prefix q (resolve cwd p) then Some Dir else fs s q)\<rparr>"
  by (auto simp: makedirs_def node_at_def split: if_splits)

lemma copytree_Ok:
  assumes "copytree cwd src dst s = Ok u s'"
  shows "resolve cwd dst \<noteq> []
         \<and> fs s' = (\<lambda>q. if strict_prefix (resolve cwd dst) q
                        then (if list_ex ignored (drop (length (resolve cwd dst)) q) then None
                              else fs s (resolve cwd src @ drop (length (resolve cwd dst)) q))
                        else if q \<noteq> [] \<and> prefix q (resolve cwd dst) then Some Dir
                        else fs s q)"
  using assms
  by (auto simp: copytree_def Let_def dest!: makedirs_Ok
      split: option.splits node.splits outcome.splits if_splits)

lemma copytree_below:
  assumes "copytree cwd src dst s = Ok u s'"
  shows "below (resolve cwd dst) s' =
           (\<lambda>r. if r = [] then Some Dir else if list_ex ignored r then None
                 else below (resolve cwd src) s r)"
proof
  fix r
  from copytree_Ok [OF assms] show "below (resolve cwd dst) s' r =
           (if r = [] then Some Dir else if list_ex ignored r then None
                 else below (resolve cwd src) s r)"
    by (cases "r = []") (auto simp: below_def strict_prefix_def)
qed

lemma copyfile_Ok:
  assumes "copyfile cwd src dst s = Ok u s'"
  shows "\<exists>c. lookup cwd s src = Some (File c) \<and> resolve cwd dst \<noteq> []
             \<and> s' = s\<lparr>fs := (fs s)(resolve cwd dst \<mapsto> File c)\<rparr>"
  using assms
  by (auto simp: copyfile_def open_write_error_def node_at_def Let_def
      split: option.splits node.splits if_splits)

lemma os_remove_Ok:
  "os_remove cwd p s = Ok u s' \<Longrightarrow> s' = s\<lparr>fs := (fs s)(resolve cwd p := None)\<rparr>"
  by (auto simp: os_remove_def split: option.splits node.splits)

lemma lookup_File_fs:
  "lookup cwd s p = Some (File c) \<Longrightarrow> resolve cwd p \<noteq> [] \<and> fs s (resolve cwd p) = Some (File c)"
  by (auto simp: lookup_def node_at_def split: if_splits option.splits node.splits)


lemma materialize_below:
  assumes ok: "materialize e m a = Ok u b"
      and dj: "disjoint_paths (resolve (getcwd e) (name m)) (resolve (getcwd e) (from_path m))"
  shows "below (resolve (getcwd e) (name m)) b =
           (if path m \<noteq> [] \<and> \<not> path_exists (getcwd e) a (from_path m)
            then below (resolve (getcwd e) (name m)) a
            else if isfile m
            then (below (resolve (getcwd e) (name m)) a)
                   ([] := below (resolve (getcwd e) (from_path m)) a [])
            else (\<lambda>r. if r = [] then Some Dir else if list_ex ignored r then None
                       else below (resolve (getcwd e) (from_path m)) a r))"
proof -
  let ?cwd = "getcwd e"
  let ?D = "resolve ?cwd (name m)"
  let ?S = "resolve ?cwd (from_path m)"
  from dj have ne: "?S \<noteq> ?D" by (auto simp: disjoint_paths_def)
  consider (skipped) "path m \<noteq> []" "\<not> path_exists ?cwd a (from_path m)"
    | (single) "\<not> (path m \<noteq> [] \<and> \<not> path_exists ?cwd a (from_path m))" "isfile m"
    | (tree) "\<not> (path m \<noteq> [] \<and> \<not> path_exists ?cwd a (from_path m))" "\<not> isfile m"
    by blast
  then show ?thesis
  proof cases
    case skipped
    with ok have "b = a\<lparr>stdout := stdout a @ [path m @ '' folder does not exists. Skipped.'']\<rparr>"
      by (auto simp: materialize_def Let_def print_def)
    with skipped show ?thesis by simp
  next
    case single
    with ok obtain a' where a': "a' = a \<or> a' = a\<lparr>fs := (fs a)(?D := None)\<rparr>"
      and cp: "copyfile ?cwd (from_path m) (name m) a' = Ok u b"
      by (auto simp: materialize_def Let_def seq_eq_Ok dest: os_remove_Ok split: if_splits)
    from copyfile_Ok [OF cp] obtain c where
      src: "lookup ?cwd a' (from_path m) = Some (File c)"
      and b: "b = a'\<lparr>fs := (fs a')(?D \<mapsto> File c)\<rparr>"
      by blast
    from lookup_File_fs [OF src] have "fs a' ?S = Some (File c)" by simp
    with a' ne have S: "fs a ?S = Some (File c)" by auto
    have "below ?D b r = ((below ?D a)([] := below ?S a [])) r" for r
      using a' b S by (auto simp: below_def)
    with single show ?thesis by auto
  next
    case tree
    with ok obtain r a' where rm: "remove_dir e (name m) a = Ok r a'"
      and cp: "copytree ?cwd (from_path m) (name m) a' = Ok u b"
      by (auto simp: materialize_def Let_def seq_eq_Ok split: if_splits)
    from remove_dir_Ok [OF rm]
    have a': "a' = a \<or> a' = a\<lparr>fs := (\<lambda>q. if prefix ?D q then None else fs a q)\<rparr>"
      by (auto split: if_splits)
    have "below ?S a' = below ?S a"
      using a' disjoint_not_prefix_append [OF dj] by (auto simp: below_def)
    with copytree_below [OF cp] tree show ?thesis by auto
  qed
qed

lemma materialize_twice:
  assumes "materialize e m a1 = Ok u1 b1" and "materialize e m a2 = Ok u2 b2"
      and dj: "disjoint_paths (resolve (getcwd e) (name m)) (resolve (getcwd e) (from_path m))"
      and src: "below (resolve (getcwd e) (from_path m)) a1
                  = below (resolve (getcwd e) (from_path m)) a2"
      and dst: "below (resolve (getcwd e) (name m)) a2 = below (resolve (getcwd e) (name m)) b1"
  shows "below (resolve (getcwd e) (name m)) b2 = below (resolve (getcwd e) (name m)) b1"
proof -
  have ex: "path_exists (getcwd e) a1 (from_path m) = path_exists (getcwd e) a2 (from_path m)"
    using lookup_below [OF src refl] by (simp add: path_exists_def)
  show ?thesis
    unfolding materialize_below [OF assms(2) dj] dst
    unfolding materialize_below [OF assms(1) dj] ex src
    by auto
qed


lemma raise_format_Ok: "raise_format r s = Ok x s' \<Longrightarrow> s' = s"
  by (auto simp: raise_format_def split: sum.splits)

lemma nice_call_Ok:
  assumes "nice_call e c cw s = Ok u s'"
  shows "\<exists>r s0 out. popen e c cw (s\<lparr>stdout := stdout s @ [executing e c cw]\<rparr>) = Ok r s0
                    \<and> s' = s0\<lparr>stdout := out\<rparr>"
  using assms unfolding nice_call_cases
  by (auto split: outcome.splits if_splits)

lemma append_file_Ok:
  "append_file cwd p t s = Ok u s' \<Longrightarrow> \<exists>n. s' = s\<lparr>fs := (fs s)(resolve cwd p \<mapsto> n)\<rparr>"
  by (auto simp: append_file_def split: option.splits)

lemma checkout_Ok:
  assumes "checkout e m s = Ok t a"
  shows "\<not> truthy (tag m) \<and> \<not> truthy (hexsha m)
         \<and> create_submodule e (name m) (modules_dir @ ''/'' @ name m) (repository m) (branch m)
             (s\<lparr>stdout := stdout s @ [''Cloning: '' @ repository m]\<rparr>) = Ok t a"
  using assms
  by (auto simp: checkout_def print_def free_variable_def seq_eq_Ok split: if_splits)

lemma checkout_frame:
  assumes "checkout e m s = Ok t a" and "tidy_collaborators e m T"
  shows "below (resolve (getcwd e) (from_path m)) a = T
         \<and> below (resolve (getcwd e) (name m)) a = below (resolve (getcwd e) (name m)) s"
proof -
  from checkout_Ok [OF assms(1)]
  have "create_submodule e (name m) (modules_dir @ ''/'' @ name m) (repository m) (branch m)
             (s\<lparr>stdout := stdout s @ [''Cloning: '' @ repository m]\<rparr>) = Ok t a"
    by simp
  with assms(2) show ?thesis
    unfolding tidy_collaborators_def by (metis below_print)
qed

lemma cleanup_frame:
  assumes "tidy_collaborators e m T"
      and "(c = ''rm .gitmodules'' \<or> c = ''git rm --quiet --cached .gitmodules'')"
      and "nice_call e c None s = Ok u s'"
  shows "below (resolve (getcwd e) (name m)) s' = below (resolve (getcwd e) (name m)) s"
proof -
  from nice_call_Ok [OF assms(3)] obtain r s0 out where
    p: "popen e c None (s\<lparr>stdout := stdout s @ [executing e c None]\<rparr>) = Ok r s0"
    and s': "s' = s0\<lparr>stdout := out\<rparr>"
    by blast
  from assms(1,2) p
  have "below (resolve (getcwd e) (name m)) s0
          = below (resolve (getcwd e) (name m)) (s\<lparr>stdout := stdout s @ [executing e c None]\<rparr>)"
    unfolding tidy_collaborators_def by blast
  with s' show ?thesis by simp
qed

lemma detach_frame:
  assumes ok: "detach e cfg m t il b = Ok il' s"
      and tidy: "tidy_collaborators e m T"
      and gi: "gitignore cfg \<longrightarrow>
                 \<not> prefix (resolve (getcwd e) (name m)) (resolve (getcwd e) ''.gitignore'')"
  shows "below (resolve (getcwd e) (name m)) s = below (resolve (getcwd e) (name m)) b"
proof -
  let ?D = "resolve (getcwd e) (name m)"
  from ok obtain u1 s1 u2 s2 line s3 where
    rm: "submodule_remove e (name m) b = Ok u1 s1"
    and cl: "(if path_isfile (getcwd e) s1 ''.gitmodules''
              then seq (nice_call e ''rm .gitmodules'' None s1)
                     (\<lambda>_ s. nice_call e ''git rm --quiet --cached .gitmodules'' None s)
              else Ok () s1) = Ok u2 s2"
    and fm: "raise_format (py_format ''Cloned: %s (%s)'' [PStr (name m), PStr t]) s2 = Ok line s3"
    and ig: "(if gitignore cfg
               then (if name m \<notin> set il
                     then seq (append_file (getcwd e) ''.gitignore'' ([CHR 0x0A] @ name m)
                                (s3\<lparr>stdout := stdout s3 @ [line]\<rparr>))
                            (\<lambda>_ s. Ok (il @ [name m]) s)
                     else seq (append_file (getcwd e) ''.gitignore'' []
                                (s3\<lparr>stdout := stdout s3 @ [line]\<rparr>))
                            (\<lambda>_ s. Ok il s))
               else Ok il (s3\<lparr>stdout := stdout s3 @ [line]\<rparr>)) = Ok il' s"
    unfolding detach_def by (auto simp: seq_eq_Ok print_def)
  from tidy rm have 1: "below ?D s1 = below ?D b"
    unfolding tidy_collaborators_def by blast
  have 2: "below ?D s2 = below ?D s1"
  proof (cases "path_isfile (getcwd e) s1 ''.gitmodules''")
    case True
    with cl obtain v sm where a: "nice_call e ''rm .gitmodules'' None s1 = Ok v sm"
      and b: "nice_call e ''git rm --quiet --cached .gitmodules'' None sm = Ok u2 s2"
      by (auto simp: seq_eq_Ok)
    from cleanup_frame [OF tidy _ a] cleanup_frame [OF tidy _ b] show ?thesis by simp
  next
    case False
    with cl show ?thesis by simp
  qed
  from raise_format_Ok [OF fm] have 3: "s3 = s2" .
  have 4: "below ?D s = below ?D s3"
  proof (cases "gitignore cfg")
    case True
    with ig obtain v where "append_file (getcwd e) ''.gitignore'' v
                              (s3\<lparr>stdout := stdout s3 @ [line]\<rparr>) = Ok () s"
      by (auto simp: seq_eq_Ok split: if_splits)
    from append_file_Ok [OF this] obtain n where
      "s = s3\<lparr>stdout := stdout s3 @ [line], fs := (fs s3)(resolve (getcwd e) ''.gitignore'' \<mapsto> n)\<rparr>"
      by auto
    moreover from gi True have "?D @ r \<noteq> resolve (getcwd e) ''.gitignore''" for r
      by (metis prefixI)
    ultimately show ?thesis by (auto simp: below_def)
  next
    case False
    with ig show ?thesis by auto
  qed
  from 1 2 3 4 show ?thesis by simp
qed

lemma fetch_module_stages:
  assumes "fetch_module e cfg m il s = Ok il' s'"
  obtains t a u b where "checkout e m s = Ok t a" and "materialize e m a = Ok u b"
    and "detach e cfg m t il b = Ok il' s'"
  using assms by (auto simp: fetch_module_def seq_eq_Ok)

lemma fetch_module_twice:
  assumes tidy: "tidy_collaborators e m T"
      and apart: "destination_apart e cfg m"
      and run1: "fetch_module e cfg m il s0 = Ok il1 s1"
      and run2: "fetch_module e cfg m il' s1' = Ok il2 s2"
      and between: "below (resolve (getcwd e) (name m)) s1' = below (resolve (getcwd e) (name m)) s1"
  shows "below (resolve (getcwd e) (name m)) s2 = below (resolve (getcwd e) (name m)) s1"
proof -
  let ?D = "resolve (getcwd e) (name m)"
  from apart have dj: "disjoint_paths ?D (resolve (getcwd e) (from_path m))"
    and gi: "gitignore cfg \<longrightarrow> \<not> prefix ?D (resolve (getcwd e) ''.gitignore'')"
    by (simp_all add: destination_apart_def)
  from run1 obtain t1 a1 u1 b1 where c1: "checkout e m s0 = Ok t1 a1"
    and m1: "materialize e m a1 = Ok u1 b1" and d1: "detach e cfg m t1 il b1 = Ok il1 s1"
    by (rule fetch_module_stages)
  from run2 obtain t2 a2 u2 b2 where c2: "checkout e m s1' = Ok t2 a2"
    and m2: "materialize e m a2 = Ok u2 b2" and d2: "detach e cfg m t2 il' b2 = Ok il2 s2"
    by (rule fetch_module_stages)
  have src: "below (resolve (getcwd e) (from_path m)) a1 = below (resolve (getcwd e) (from_path m)) a2"
    using checkout_frame [OF c1 tidy] checkout_frame [OF c2 tidy] by simp
  have "below ?D a2 = below ?D s1'" using checkout_frame [OF c2 tidy] by simp
  also have "\<dots> = below ?D s1" by (rule between)
  also have "\<dots> = below ?D b1" by (rule detach_frame [OF d1 tidy gi])
  finally have dst: "below ?D a2 = below ?D b1" .
  have "below ?D s2 = below ?D b2" by (rule detach_frame [OF d2 tidy gi])
  also have "\<dots> = below ?D b1" by (rule materialize_twice [OF m1 m2 dj src dst])
  also have "\<dots> = below ?D s1" by (rule detach_frame [OF d1 tidy gi, symmetric])
  finally show ?thesis .
qed

section \<open>A pass for one named module\<close>

lemma resolve_private:
  "resolve cwd ''.git/modules/'' = foldl path_step [] (py_split (CHR ''/'') cwd) @ [''.git'', ''modules'']"
  "resolve cwd modules_dir = foldl path_step [] (py_split (CHR ''/'') cwd) @ [''.quack'', ''modules'']"
  by (simp_all add: resolve_def path_step_def modules_dir_def)

lemma read_file_Ok: "read_file cwd p s = Ok c s' \<Longrightarrow> s' = s"
  by (auto simp: read_file_def split: option.splits node.splits)

lemma create_dir_Ok:
  "create_dir e p s = Ok u s' \<Longrightarrow>
     s' = s \<and> path_exists (getcwd e) s p
     \<or> resolve (getcwd e) p \<noteq> []
       \<and> s' = s\<lparr>fs := (\<lambda>q. if q \<noteq> [] \<and> prefix q (resolve (getcwd e) p) then Some Dir
                            else fs s q)\<rparr>"
  by (auto simp: create_dir_def dest: makedirs_Ok split: if_splits)

lemma fetch_setup_Ok:
  assumes "fetch_setup e cfg s = Ok il s'"
  obtains r s1 where "remove_dir e ''.git/modules/'' s = Ok r s1"
    and "create_dir e modules_dir s1 = Ok () s'"
  using assms unfolding fetch_setup_def
  by (auto simp: seq_eq_Ok dest!: read_file_Ok split: if_splits option.splits)

lemma fetch_setup_post:
  assumes "fetch_setup e cfg s = Ok il s'"
  shows "\<not> path_exists (getcwd e) s' ''.git/modules/'' \<and> path_exists (getcwd e) s' modules_dir"
proof -
  from assms obtain r s1 where rm: "remove_dir e ''.git/modules/'' s = Ok r s1"
    and mk: "create_dir e modules_dir s1 = Ok () s'"
    by (rule fetch_setup_Ok)
  from remove_dir_gone [OF rm] have gone: "\<not> path_exists (getcwd e) s1 ''.git/modules/''" .
  from create_dir_Ok [OF mk] show ?thesis
  proof
    assume "s' = s1 \<and> path_exists (getcwd e) s1 modules_dir"
    with gone show ?thesis by simp
  next
    assume a: "resolve (getcwd e) modules_dir \<noteq> []
       \<and> s' = s1\<lparr>fs := (\<lambda>q. if q \<noteq> [] \<and> prefix q (resolve (getcwd e) modules_dir) then Some Dir
                            else fs s1 q)\<rparr>"
    have "\<not> prefix (resolve (getcwd e) ''.git/modules/'') (resolve (getcwd e) modules_dir)"
      by (simp add: resolve_private)
    with a gone have "\<not> path_exists (getcwd e) s' ''.git/modules/''"
      by (simp add: path_exists_def lookup_def node_at_def resolve_private)
    moreover from a have "path_exists (getcwd e) s' modules_dir"
      by (simp add: path_exists_def lookup_def node_at_def modules_dir_def)
    ultimately show ?thesis by simp
  qed
qed

lemma fetch_setup_frame:
  assumes "fetch_setup e cfg s = Ok il s'"
      and "disjoint_paths d (resolve (getcwd e) ''.git/modules/'')"
      and "\<not> prefix d (resolve (getcwd e) modules_dir)"
  shows "below d s' = below d s"
proof -
  from assms(1) obtain r s1 where rm: "remove_dir e ''.git/modules/'' s = Ok r s1"
    and mk: "create_dir e modules_dir s1 = Ok () s'"
    by (rule fetch_setup_Ok)
  from remove_dir_Ok [OF rm]
  have "s1 = s \<or> s1 = s\<lparr>fs := (\<lambda>q. if prefix (resolve (getcwd e) ''.git/modules/'') q then None
                                    else fs s q)\<rparr>"
    by (auto split: if_splits)
  then have 1: "below d s1 = below d s"
    using disjoint_not_prefix_append' [OF assms(2)] by (auto simp: below_def)
  from assms(3) have "\<not> prefix (d @ r) (resolve (getcwd e) modules_dir)" for r
    by (meson append_prefixD)
  with create_dir_Ok [OF mk] have "below d s' = below d s1"
    by (auto simp: below_def)
  with 1 show ?thesis by simp
qed

lemma from_config_Ok:
  assumes "from_config nm mc s = Ok m s'"
  shows "s' = s \<and> name m = nm \<and> from_config nm mc s2 = Ok m s2"
  using assms
  by (auto simp: from_config_def stderr_write_def split: option.splits)

lemma fetch_loop_others:
  assumes "X \<noteq> []" and "X \<notin> fst ` set module_list"
      and "fetch_loop e cfg (Some X) module_list il s = Ok u s'"
  shows "s' = s"
  using assms(2,3)
proof (induction module_list)
  case Nil
  then show ?case by simp
next
  case (Cons x xs)
  obtain k mc where x: "x = (k, mc)" by (cases x)
  from Cons.prems(2) x obtain m sm where fc: "from_config k mc s = Ok m sm"
    by (auto simp: seq_eq_Ok)
  from from_config_Ok [OF fc] have sm: "sm = s" and nm: "name m = k" by simp_all
  from Cons.prems(1) x have "k \<noteq> X" by auto
  with Cons.prems(2) x fc sm nm assms(1)
  have "fetch_loop e cfg (Some X) xs il s = Ok u s'" by simp
  with Cons show ?case by simp
qed

lemma fetch_loop_named:
  assumes ne: "X \<noteq> []" and dist: "distinct (map fst module_list)"
      and mem: "(X, mc) \<in> set module_list"
      and ok: "fetch_loop e cfg (Some X) module_list il s = Ok u s'"
  shows "\<exists>m. from_config X mc s = Ok m s
             \<and> (if truthy (tag m) \<and> truthy (hexsha m) then fs s' = fs s
                 else (\<exists>il'. fetch_module e cfg m il s = Ok il' s'))"
  using dist mem ok
proof (induction module_list)
  case Nil
  then show ?case by simp
next
  case (Cons x xs)
  obtain k c where x: "x = (k, c)" by (cases x)
  from Cons.prems(3) x obtain m sm where fc: "from_config k c s = Ok m sm"
    by (auto simp: seq_eq_Ok)
  from from_config_Ok [OF fc] have sm: "sm = s" and nm: "name m = k" by simp_all
  show ?case
  proof (cases "k = X")
    case True
    with Cons.prems(1,2) x have c: "c = mc" and rest: "X \<notin> fst ` set xs"
      by (auto simp: image_iff)
    show ?thesis
    proof (cases "truthy (tag m) \<and> truthy (hexsha m)")
      case both: True
      with Cons.prems(3) x fc sm nm True ne obtain line where
        "fetch_loop e cfg (Some X) xs il (s\<lparr>stdout := stdout s @ [line]\<rparr>) = Ok u s'"
        by (auto simp: seq_eq_Ok print_def dest!: raise_format_Ok)
      from fetch_loop_others [OF ne rest this] have "fs s' = fs s" by simp
      with both fc sm True c show ?thesis by auto
    next
      case False
      with Cons.prems(3) x fc sm nm True ne obtain il' s1 where
        fm: "fetch_module e cfg m il s = Ok il' s1"
        and lp: "fetch_loop e cfg (Some X) xs il' s1 = Ok u s'"
        by (auto simp: seq_eq_Ok)
      from fetch_loop_others [OF ne rest lp] fm have "fetch_module e cfg m il s = Ok il' s'"
        by simp
      with False fc sm True c show ?thesis by auto
    qed
  next
    case False
    with Cons.prems(3) x fc sm nm ne
    have "fetch_loop e cfg (Some X) xs il s = Ok u s'" by simp
    moreover from False Cons.prems(1,2) x have "distinct (map fst xs)" "(X, mc) \<in> set xs"
      by auto
    ultimately show ?thesis using Cons.IH by blast
  qed
qed


lemma run_task_fetch_named:
  assumes "py_remove_all ''modules:'' X = X" and "modules cfg = Some module_list"
      and "module_list \<noteq> []"
  shows "run_task e cfg (''modules:'' @ X) s =
           seq (fetch_setup e cfg s) (\<lambda>il s. fetch_loop e cfg (Some X) module_list il s)"
  using assms by (simp add: run_task_def py_find_def Let_def fetch_modules_def)

lemma fetch_named_pass:
  assumes X: "py_remove_all ''modules:'' X = X" "X \<noteq> []"
      and cfg: "modules cfg = Some module_list" "distinct (map fst module_list)"
        "(X, mc) \<in> set module_list"
      and m: "from_config X mc s0 = Ok m s0"
      and run: "run_task e cfg (''modules:'' @ X) s = Ok u s'"
  obtains il a where "fetch_setup e cfg s = Ok il a"
    and "if truthy (tag m) \<and> truthy (hexsha m) then fs s' = fs a
         else (\<exists>il'. fetch_module e cfg m il a = Ok il' s')"
proof -
  from cfg(3) have "module_list \<noteq> []" by auto
  from run [unfolded run_task_fetch_named [OF X(1) cfg(1) this]]
  obtain il a where st: "fetch_setup e cfg s = Ok il a"
    and lp: "fetch_loop e cfg (Some X) module_list il a = Ok u s'"
    by (auto simp: seq_eq_Ok)
  from fetch_loop_named [OF X(2) cfg(2,3) lp] obtain m' where
    m': "from_config X mc a = Ok m' a"
    and r: "if truthy (tag m') \<and> truthy (hexsha m') then fs s' = fs a
            else (\<exists>il'. fetch_module e cfg m' il a = Ok il' s')"
    by blast
  from from_config_Ok [OF m, of a] m' have "m' = m" by simp
  with st r that show thesis by blast
qed

text \<open>
  Claim C6. A pass with modules to fetch first runs \<open>fetch_setup\<close>: after it
  \<open>.git/modules/\<close> does not exist and the private working area does. Let the task
  \<open>modules:X\<close> return twice in a row, for a module \<open>X\<close> of the configuration whose
  destination lies apart from the paths the pass works on, with collaborators that
  deliver the same checkout \<open>T\<close> each time and leave the destination alone. Then the
  contents at and below the destination are the same after the second run as after
  the first. For a directory copy of a checkout that is a directory they are exactly
  the entries of the checkout that are not ignored, so nothing that was there before
  the run is left.
\<close>

theorem C6_fetch_twice_same_destination:
  assumes cfg: "modules cfg = Some module_list" "distinct (map fst module_list)"
        "(X, mc) \<in> set module_list"
      and m: "from_config X mc s0 = Ok m s0"
      and X: "py_remove_all ''modules:'' X = X" "X \<noteq> []"
      and tidy: "tidy_collaborators e m T"
      and apart: "destination_apart e cfg m"
      and run1: "run_task e cfg (''modules:'' @ X) s0 = Ok u1 s1"
      and run2: "run_task e cfg (''modules:'' @ X) s1 = Ok u2 s2"
  shows "below (resolve (getcwd e) X) s2 = below (resolve (getcwd e) X) s1
         \<and> (\<not> isfile m \<and> \<not> (truthy (tag m) \<and> truthy (hexsha m)) \<and> T [] = Some Dir
            \<longrightarrow> below (resolve (getcwd e) X) s1 =
                  (\<lambda>r. if r = [] then Some Dir else if list_ex ignored r then None else T r))
         \<and> fetch_modules e cfg (Some X) s =
             seq (fetch_setup e cfg s) (\<lambda>il s. fetch_loop e cfg (Some X) module_list il s)
         \<and> (\<forall>il s'. fetch_setup e cfg s = Ok il s'
              \<longrightarrow> \<not> path_exists (getcwd e) s' ''.git/modules/''
                  \<and> path_exists (getcwd e) s' modules_dir)"
proof -
  from from_config_Ok [OF m] have nm: "name m = X" by simp
  let ?D = "resolve (getcwd e) X"
  from apart nm have dj: "disjoint_paths ?D (resolve (getcwd e) (from_path m))"
    and dg: "disjoint_paths ?D (resolve (getcwd e) ''.git/modules/'')"
    and dq: "\<not> prefix ?D (resolve (getcwd e) modules_dir)"
    and gi: "gitignore cfg \<longrightarrow> \<not> prefix ?D (resolve (getcwd e) ''.gitignore'')"
    by (simp_all add: destination_apart_def)
  from run1 obtain il1 a1 where st1: "fetch_setup e cfg s0 = Ok il1 a1"
    and r1: "if truthy (tag m) \<and> truthy (hexsha m) then fs s1 = fs a1
             else (\<exists>il'. fetch_module e cfg m il1 a1 = Ok il' s1)"
    by (rule fetch_named_pass [OF X cfg m])
  from run2 obtain il2 a2 where st2: "fetch_setup e cfg s1 = Ok il2 a2"
    and r2: "if truthy (tag m) \<and> truthy (hexsha m) then fs s2 = fs a2
             else (\<exists>il'. fetch_module e cfg m il2 a2 = Ok il' s2)"
    by (rule fetch_named_pass [OF X cfg m])
  have between: "below ?D a2 = below ?D s1"
    by (rule fetch_setup_frame [OF st2 dg dq])
  have same: "below ?D s2 = below ?D s1"
  proof (cases "truthy (tag m) \<and> truthy (hexsha m)")
    case True
    with r2 have "below ?D s2 = below ?D a2" by (simp add: below_def)
    with between show ?thesis by simp
  next
    case False
    with r1 r2 obtain i1 i2 where f1: "fetch_module e cfg m il1 a1 = Ok i1 s1"
      and f2: "fetch_module e cfg m il2 a2 = Ok i2 s2"
      by auto
    from fetch_module_twice [OF tidy apart f1 f2] between nm show ?thesis by simp
  qed
  have exact: "below ?D s1 =
                  (\<lambda>r. if r = [] then Some Dir else if list_ex ignored r then None else T r)"
    if "\<not> isfile m" and "\<not> (truthy (tag m) \<and> truthy (hexsha m))" and "T [] = Some Dir"
  proof -
    let ?S = "resolve (getcwd e) (from_path m)"
    from that(2) r1 obtain i1 where "fetch_module e cfg m il1 a1 = Ok i1 s1" by auto
    then obtain t a u b where co: "checkout e m a1 = Ok t a"
      and ma: "materialize e m a = Ok u b" and de: "detach e cfg m t il1 b = Ok i1 s1"
      by (rule fetch_module_stages)
    from checkout_frame [OF co tidy] have src: "below ?S a = T" by simp
    from dj have "?S \<noteq> []" by (auto simp: disjoint_paths_def)
    with src that(3) have "lookup (getcwd e) a (from_path m) = Some Dir"
      by (auto simp: lookup_def node_at_def below_def from_path_def dest: fun_cong [where x = "[]"])
    then have ex: "path_exists (getcwd e) a (from_path m)" by (simp add: path_exists_def)
    from detach_frame [OF de tidy] gi nm have "below ?D s1 = below ?D b" by simp
    also from materialize_below [OF ma] dj nm ex that(1)
    have "below ?D b =
            (\<lambda>r. if r = [] then Some Dir else if list_ex ignored r then None
                  else below ?S a r)"
      by simp
    finally show ?thesis unfolding src .
  qed
  from cfg(3) have "module_list \<noteq> []" by auto
  with cfg(1) have fm: "fetch_modules e cfg (Some X) s =
             seq (fetch_setup e cfg s) (\<lambda>il s. fetch_loop e cfg (Some X) module_list il s)"
    by (simp add: fetch_modules_def)
  from same exact fm fetch_setup_post show ?thesis by blast
qed


theorem C6_witness:
  "tidy_collaborators demo_env lib_module (map_of demo_tree)
   \<and> destination_apart demo_env demo_config lib_module
   \<and> returned (run_task demo_env demo_config ''modules:lib'' stale_world)
   \<and> returned (run_task demo_env demo_config ''modules:lib''
                 (final (run_task demo_env demo_config ''modules:lib'' stale_world)))
   \<and> below [''w'', ''lib'']
         (final (run_task demo_env demo_config ''modules:lib''
                   (final (run_task demo_env demo_config ''modules:lib'' stale_world))))
       = below [''w'', ''lib''] (final (run_task demo_env demo_config ''modules:lib'' stale_world))
   \<and> below [''w'', ''lib''] (final (run_task demo_env demo_config ''modules:lib'' stale_world))
       = (\<lambda>r. if r = [] then Some Dir else if list_ex ignored r then None
               else map_of demo_tree r)
   \<and> below [''w'', ''lib''] stale_world [''old.txt''] = Some (File ''stale'')
   \<and> below [''w'', ''lib''] (final (run_task demo_env demo_config ''modules:lib'' stale_world))
        [''old.txt''] = None
   \<and> below [''w'', ''lib''] (final (run_task demo_env demo_config ''modules:lib'' stale_world))
        [''src'', ''a.py''] = Some (File ''pass'')"
proof -
  let ?r1 = "run_task demo_env demo_config ''modules:lib'' stale_world"
  let ?r2 = "run_task demo_env demo_config ''modules:lib'' (final ?r1)"
  have cwd: "getcwd demo_env = ''/w''" by (simp add: demo_env_def)
  have D: "resolve ''/w'' ''lib'' = [''w'', ''lib'']" by code_simp
  have S: "resolve ''/w'' (from_path lib_module) = [''w'', ''.quack'', ''modules'', ''lib'']"
    by code_simp
  have P: "resolve ''/w'' (modules_dir @ ''/lib'') = [''w'', ''.quack'', ''modules'', ''lib'']"
    by code_simp
  have P': "resolve ''/w'' ''.quack/modules/lib'' = [''w'', ''.quack'', ''modules'', ''lib'']"
    by code_simp
  have nm: "name lib_module = ''lib''" "repository lib_module = ''https://x/lib.git''"
    "branch lib_module = ''main''"
    by (simp_all add: lib_module_def)
  have tidy: "tidy_collaborators demo_env lib_module (map_of demo_tree)"
    unfolding tidy_collaborators_def cwd nm S D
    by (auto simp: demo_env_def below_def P P' D fun_eq_iff)
  have apart: "destination_apart demo_env demo_config lib_module"
    by code_simp
  have a: "returned ?r1" by code_simp
  have b: "returned ?r2" by code_simp
  from a have r1: "?r1 = Ok () (final ?r1)"
    by (auto simp: returned_def final_def split: outcome.splits)
  from b have r2: "?r2 = Ok () (final ?r2)"
    by (auto simp: returned_def final_def split: outcome.splits)
  have c: "modules demo_config = Some [(''lib'', lib_config)]"
    and d: "distinct (map fst [(''lib'', lib_config)])"
    and f: "(''lib'', lib_config) \<in> set [(''lib'', lib_config)]"
    and g: "from_config ''lib'' lib_config stale_world = Ok lib_module stale_world"
    and h: "py_remove_all ''modules:'' ''lib'' = ''lib''" and i: "''lib'' \<noteq> []"
    by (simp_all add: demo_config_def from_config_def lib_config_def lib_module_def)
  have k: "\<not> isfile lib_module \<and> \<not> (truthy (tag lib_module) \<and> truthy (hexsha lib_module))
           \<and> map_of demo_tree [] = Some Dir"
    by (simp add: lib_module_def demo_tree_def)
  note t = C6_fetch_twice_same_destination [OF c d f g h i tidy apart, of "()" "final ?r1"
      "()" "final ?r2" stale_world, unfolded cwd D]
  from t r1 r2 have same: "below [''w'', ''lib''] (final ?r2) = below [''w'', ''lib''] (final ?r1)"
    by (simp add: demo_config_def [symmetric])
  from t r1 r2 k have exact: "below [''w'', ''lib''] (final ?r1)
       = (\<lambda>r. if r = [] then Some Dir else if list_ex ignored r then None
               else map_of demo_tree r)"
    by (simp add: demo_config_def [symmetric])
  have old: "below [''w'', ''lib''] stale_world [''old.txt''] = Some (File ''stale'')"
    by (simp add: below_def stale_world_def)
  have gone: "below [''w'', ''lib''] (final ?r1) [''old.txt''] = None"
    unfolding exact by (simp add: ignored_def demo_tree_def)
  have kept: "below [''w'', ''lib''] (final ?r1) [''src'', ''a.py''] = Some (File ''pass'')"
    unfolding exact by (simp add: ignored_def demo_tree_def)
  from tidy apart a b same exact old gone kept show ?thesis by blast
qed

end
